theory Spec2Isabelle
  imports Complex_Main "HOL-Library.AList" "HOL-Library.Multiset"
begin

section \<open>Shallow embedding of the city ingestion pipeline\<close>

text \<open>
  The theory embeds the ingestion scripts of the repository:
  \<^item> \<^verbatim>\<open>scripts/lib/config.ts\<close>: constants and data types;
  \<^item> \<^verbatim>\<open>scripts/lib/rateLimiter.ts\<close>: the retry executor \<^verbatim>\<open>withRetry\<close> and its
    retryability predicate;
  \<^item> \<^verbatim>\<open>scripts/lib/googlePlaces.ts\<close>: the catalog client, ranking and qualification;
  \<^item> \<^verbatim>\<open>scripts/lib/vibeScorer.ts\<close>: score parsing and review aggregation;
  \<^item> \<^verbatim>\<open>scripts/ingestCity.ts\<close>: argument parsing, cell loading, the per-cell pipeline
    and the orchestrator loop.

  Conventions. A JavaScript string is a \<open>string\<close>: a list of code units, restricted to
  the code units below 256 that \<open>char\<close> can hold; \<open>length\<close> is the source's
  \<^verbatim>\<open>.length\<close>. A JavaScript number is a \<open>nat\<close> where the source counts, and a
  \<open>real\<close> where it measures: IEEE rounding is not modelled. A thrown value is a
  \<open>thrown\<close> record, and a function that may throw returns \<open>thrown + 'a\<close>
  (\<open>Inl\<close> is the throw). Everything outside the scripts (network, store, clock, timers)
  is an external world of an arbitrary type \<open>'w\<close>, reached only through the operations
  of an \<open>env\<close> record, so every theorem holds for every behaviour of the external
  services. Console output is not modelled.
\<close>

subsection \<open>config.ts: constants and data types\<close>

definition PLACE_TYPES :: "string list" where
  "PLACE_TYPES = [''restaurant'', ''bar'', ''cafe'', ''night_club'', ''park'', ''tourist_attraction'']"

definition MIN_REVIEW_COUNT :: nat where
  "MIN_REVIEW_COUNT = 10"

definition TOP_VENUES_PER_CELL :: nat where
  "TOP_VENUES_PER_CELL = 5"

definition betweenCells_delayMs :: nat where
  "betweenCells_delayMs = 500"

definition LLM_MODEL :: string where
  "LLM_MODEL = ''gpt-4.1-mini''"

definition VIBE_DIMENSIONS :: "string list" where
  "VIBE_DIMENSIONS = [''lively'', ''social'', ''upscale'', ''casual'', ''trendy'', ''local'', ''photogenic'']"

text \<open>\<^verbatim>\<open>VibeScores = Record<VibeDimension, number | null>\<close>: \<open>None\<close> is \<^verbatim>\<open>null\<close>.\<close>

record VibeScores =
  lively :: "real option"
  social :: "real option"
  upscale :: "real option"
  casual :: "real option"
  trendy :: "real option"
  local :: "real option"
  photogenic :: "real option"

text \<open>\<^verbatim>\<open>scores[dim]\<close> and \<^verbatim>\<open>scores[dim] = v\<close> for a dimension name.\<close>

definition get_dim :: "string \<Rightarrow> VibeScores \<Rightarrow> real option" where
  "get_dim dm scores =
     (if dm = ''lively'' then lively scores
      else if dm = ''social'' then social scores
      else if dm = ''upscale'' then upscale scores
      else if dm = ''casual'' then casual scores
      else if dm = ''trendy'' then trendy scores
      else if dm = ''local'' then local scores
      else if dm = ''photogenic'' then photogenic scores
      else None)"

definition set_dim :: "string \<Rightarrow> real option \<Rightarrow> VibeScores \<Rightarrow> VibeScores" where
  "set_dim dm v scores =
     (if dm = ''lively'' then scores\<lparr>lively := v\<rparr>
      else if dm = ''social'' then scores\<lparr>social := v\<rparr>
      else if dm = ''upscale'' then scores\<lparr>upscale := v\<rparr>
      else if dm = ''casual'' then scores\<lparr>casual := v\<rparr>
      else if dm = ''trendy'' then scores\<lparr>trendy := v\<rparr>
      else if dm = ''local'' then scores\<lparr>local := v\<rparr>
      else if dm = ''photogenic'' then scores\<lparr>photogenic := v\<rparr>
      else scores)"

text \<open>
  \<^verbatim>\<open>GooglePlace\<close>: an optional field is an \<open>option\<close>. \<open>place_id\<close> is the source's
  \<^verbatim>\<open>id\<close>, \<open>displayName\<close> is \<^verbatim>\<open>displayName?.text\<close>.
\<close>

record LatLng =
  latitude :: real
  longitude :: real

record GooglePlace =
  place_id :: string
  displayName :: "string option"
  rating :: "real option"
  userRatingCount :: "nat option"
  types :: "string list option"
  location :: "LatLng option"

text \<open>A review of \<^verbatim>\<open>GooglePlaceDetails.reviews\<close>; \<open>review_text\<close> is \<^verbatim>\<open>review.text?.text\<close>.\<close>

record Review =
  review_text :: "string option"
  review_rating :: "real option"
  relativePublishTimeDescription :: "string option"

record GooglePlaceDetails = GooglePlace +
  reviews :: "Review list option"

record GridCell =
  cell_id :: string
  city_id :: string
  centroid :: string

text \<open>
  \<^verbatim>\<open>VenueData\<close>. The source's \<^verbatim>\<open>location\<close> is the text \<^verbatim>\<open>POINT(lng lat)\<close> printed from
  two numbers; the model keeps the pair (longitude, latitude) that the text is printed from.
\<close>

record VenueData =
  google_place_id :: string
  grid_cell_id :: string
  name :: string
  category :: "string option"
  venue_rating :: "real option"
  review_count :: "nat option"
  venue_location :: "real \<times> real"

text \<open>\<^verbatim>\<open>CellVibeData\<close>: the seven score columns are the spread \<^verbatim>\<open>...scores\<close>.\<close>

record CellVibeData =
  vibe_grid_cell_id :: string
  vibe_scores :: VibeScores
  source_review_count :: nat
  model_name :: "string option"
  computed_at :: string

record CliOptions =
  citySlug :: string
  force :: bool
  dryRun :: bool
  limit :: "int option"

record FailedCell =
  cellId :: string
  error :: string
  timestamp :: string

subsection \<open>rateLimiter.ts: the retry executor\<close>

text \<open>
  A thrown value. Every value thrown in these scripts is an object with a \<^verbatim>\<open>message\<close>:
  an \<^verbatim>\<open>Error\<close> (\<open>is_Error\<close>, the source's \<^verbatim>\<open>instanceof Error\<close>), possibly with a
  numeric \<^verbatim>\<open>status\<close> property, or an error object of the store client.
\<close>

record thrown =
  is_Error :: bool
  message :: string
  status :: "nat option"

text \<open>\<^verbatim>\<open>s.includes(needle)\<close>.\<close>

definition str_includes :: "string \<Rightarrow> string \<Rightarrow> bool" where
  "str_includes s needle =
     (\<exists>i \<in> set [0..<Suc (length s)]. take (length needle) (drop i s) = needle)"

definition is_digit :: "char \<Rightarrow> bool" where
  "is_digit c = (48 \<le> (of_char c :: nat) \<and> (of_char c :: nat) \<le> 57)"

definition digit_val :: "char \<Rightarrow> nat" where
  "digit_val c = of_char c - 48"

text \<open>
  The white space and line terminators of JavaScript (\<^verbatim>\<open>\s\<close> and \<^verbatim>\<open>trim\<close>) among
  the code units below 256: tab, LF, VT, FF, CR, space and the no-break space.
\<close>

definition is_js_space :: "char \<Rightarrow> bool" where
  "is_js_space c = ((of_char c :: nat) \<in> {9, 10, 11, 12, 13, 32, 160})"

definition ascii_lower :: "char \<Rightarrow> char" where
  "ascii_lower c =
     (if 65 \<le> (of_char c :: nat) \<and> (of_char c :: nat) \<le> 90
      then char_of (of_char c + 32 :: nat) else c)"

text \<open>
  \<^verbatim>\<open>message.match(/status[:\s]+(\d{3})/i)\<close> followed by \<^verbatim>\<open>parseInt(statusMatch[1], 10)\<close>.
  \<open>statusMatch_at\<close> tries the pattern at the start of its argument; the greedy
  \<^verbatim>\<open>[:\s]+\<close> never gives a character back, since no digit is in its class.
  \<open>statusMatch\<close> takes the leftmost position that matches.
\<close>

definition statusMatch_at :: "string \<Rightarrow> nat option" where
  "statusMatch_at s =
     (if map ascii_lower (take 6 s) = ''status'' then
        (let r = drop 6 s; r' = dropWhile (\<lambda>c. c = CHR '':'' \<or> is_js_space c) r
         in if length r' < length r \<and> 3 \<le> length r' \<and> list_all is_digit (take 3 r')
            then Some (foldl (\<lambda>n c. 10 * n + digit_val c) 0 (take 3 r'))
            else None)
      else None)"

fun statusMatch :: "string \<Rightarrow> nat option" where
  "statusMatch [] = None"
| "statusMatch (c # cs) =
     (case statusMatch_at (c # cs) of Some n \<Rightarrow> Some n | None \<Rightarrow> statusMatch cs)"

definition isRetryableError :: "thrown \<Rightarrow> nat list \<Rightarrow> bool" where
  "isRetryableError err retryableCodes =
     (if is_Error err then
        (if str_includes (message err) ''timeout'' \<or> str_includes (message err) ''ETIMEDOUT''
         then True
         else case statusMatch (message err) of
                Some st \<Rightarrow> st \<in> set retryableCodes
              | None \<Rightarrow> (case status err of
                           Some st \<Rightarrow> st \<in> set retryableCodes
                         | None \<Rightarrow> False))
      else False)"

text \<open>
  The options of \<^verbatim>\<open>withRetry\<close>. The observer \<^verbatim>\<open>onRetry\<close> is optional; it acts on the
  state \<open>'s\<close> that the operation acts on.
\<close>

record 's retry_options =
  maxRetries :: nat
  initialDelayMs :: nat
  maxDelayMs :: nat
  retryableStatusCodes :: "nat list"
  onRetry :: "(nat \<Rightarrow> thrown \<Rightarrow> 's \<Rightarrow> 's) option"

definition RETRY_CONFIG :: "'s retry_options" where
  "RETRY_CONFIG = \<lparr>maxRetries = 3, initialDelayMs = 1000, maxDelayMs = 10000,
     retryableStatusCodes = [429, 500, 503], onRetry = None\<rparr>"

text \<open>
  What one run of \<^verbatim>\<open>withRetry\<close> did, in order: \<open>Attempted r\<close> for a call of
  \<^verbatim>\<open>fn()\<close> (\<open>r\<close> the error it threw, if any), \<open>Observed k e\<close> for \<^verbatim>\<open>onRetry(k, e)\<close>,
  \<open>Slept d\<close> for \<^verbatim>\<open>await sleep(d)\<close>.
\<close>

datatype retry_event = Attempted "thrown option" | Observed nat thrown | Slept nat

text \<open>The \<^verbatim>\<open>null\<close> that \<^verbatim>\<open>throw lastError\<close> throws when no call has failed.\<close>

definition null_thrown :: thrown where
  "null_thrown = \<lparr>is_Error = False, message = [], status = None\<rparr>"

text \<open>
  The loop of \<^verbatim>\<open>withRetry\<close>, from \<^verbatim>\<open>attempt\<close> on. \<open>fn\<close> is the operation, acting on
  a state \<open>'s\<close>; \<open>sleep\<close> is the effect of \<^verbatim>\<open>await sleep(delay)\<close> on that state.
  The result is what the source returns or throws with the state reached, and the events
  of the run. The last branch is the \<^verbatim>\<open>throw lastError\<close> after the loop.
\<close>

function withRetry_loop ::
  "('s \<Rightarrow> (thrown + 'a) \<times> 's) \<Rightarrow> (nat \<Rightarrow> 's \<Rightarrow> 's) \<Rightarrow> 's retry_options \<Rightarrow>
   nat \<Rightarrow> thrown option \<Rightarrow> 's \<Rightarrow> ((thrown + 'a) \<times> 's) \<times> retry_event list" where
  "withRetry_loop fn sleep options attempt lastError s =
     (if attempt \<le> maxRetries options then
        (case fn s of
           (Inr v, s') \<Rightarrow> ((Inr v, s'), [Attempted None])
         | (Inl err, s') \<Rightarrow>
             if \<not> isRetryableError err (retryableStatusCodes options) \<or> attempt = maxRetries options
             then ((Inl err, s'), [Attempted (Some err)])
             else
               (let delay = min (initialDelayMs options * 2 ^ attempt) (maxDelayMs options);
                    s'' = (case onRetry options of None \<Rightarrow> s' | Some f \<Rightarrow> f (attempt + 1) err s');
                    (res, evs) = withRetry_loop fn sleep options (attempt + 1) (Some err) (sleep delay s'')
                in (res, [Attempted (Some err), Observed (attempt + 1) err, Slept delay] @ evs)))
      else ((Inl (case lastError of Some e \<Rightarrow> e | None \<Rightarrow> null_thrown), s), []))"
  by pat_completeness auto
termination
  by (relation "measure (\<lambda>(fn, sleep, options, attempt, lastError, s). Suc (maxRetries options) - attempt)") auto

definition withRetry ::
  "('s \<Rightarrow> (thrown + 'a) \<times> 's) \<Rightarrow> (nat \<Rightarrow> 's \<Rightarrow> 's) \<Rightarrow> 's retry_options \<Rightarrow> 's \<Rightarrow> (thrown + 'a) \<times> 's" where
  "withRetry fn sleep options s = fst (withRetry_loop fn sleep options 0 None s)"






subsection \<open>The external world\<close>

text \<open>
  An HTTP response as \<^verbatim>\<open>fetch\<close> resolves it: \<^verbatim>\<open>ok\<close>, \<^verbatim>\<open>status\<close>, the body read by
  \<^verbatim>\<open>text()\<close>, and the body read by \<^verbatim>\<open>json()\<close>, which throws on a body that is
  not JSON.
\<close>

record 'b Response =
  ok :: bool
  resp_status :: nat
  resp_text :: string
  json :: "thrown + 'b"

text \<open>
  The operations on the external world \<open>'w\<close>, each returning the world it leaves.
  \<^item> \<open>env_sleep ms\<close>: \<^verbatim>\<open>await sleep(ms)\<close>;
  \<^item> \<open>acquire_googlePlaces\<close>, \<open>acquire_openai\<close>: \<^verbatim>\<open>rateLimiter.acquire()\<close> of the two
    token buckets, which only wait and never throw;
  \<^item> \<open>fetch_searchNearby lat lng placeType\<close>: the \<^verbatim>\<open>fetch\<close> of \<^verbatim>\<open>nearbySearch\<close>; the JSON
    body is its \<^verbatim>\<open>places\<close> field, \<open>None\<close> when absent;
  \<^item> \<open>fetch_placeDetails placeId\<close>: the \<^verbatim>\<open>fetch\<close> of \<^verbatim>\<open>getPlaceDetails\<close>;
  \<^item> \<open>responses_create prompt\<close>: \<^verbatim>\<open>client.responses.create\<close>, returning \<^verbatim>\<open>output_text\<close>;
  \<^item> \<open>rpc_get_grid_centroids\<close>: the store's \<^verbatim>\<open>get_grid_centroids\<close> call, \<open>None\<close> when
    it reports an error or no data;
  \<^item> \<open>select_cell_vibes ids\<close>: the cell identifiers among \<open>ids\<close> that have a score row,
    \<open>None\<close> when the query gives no data;
  \<^item> \<open>venues_upsert\<close>, \<open>cell_vibes_insert\<close>: the store writes, returning the store's
    \<^verbatim>\<open>error\<close>, if any; \<open>cell_vibes_delete\<close>: the delete, whose result the source drops;
  \<^item> \<open>toISOString\<close>: \<^verbatim>\<open>new Date().toISOString()\<close>;
  \<^item> \<open>parsePointWKT\<close>: the function of that name in \<^verbatim>\<open>googlePlaces.ts\<close>, a regular
    expression and two \<^verbatim>\<open>parseFloat\<close>; the theorems only depend on whether it returns
    \<^verbatim>\<open>null\<close>, so it is left open.
\<close>

record 'w env =
  env_sleep :: "nat \<Rightarrow> 'w \<Rightarrow> 'w"
  acquire_googlePlaces :: "'w \<Rightarrow> 'w"
  acquire_openai :: "'w \<Rightarrow> 'w"
  fetch_searchNearby :: "real \<Rightarrow> real \<Rightarrow> string \<Rightarrow> 'w \<Rightarrow> (thrown + GooglePlace list option Response) \<times> 'w"
  fetch_placeDetails :: "string \<Rightarrow> 'w \<Rightarrow> (thrown + GooglePlaceDetails Response) \<times> 'w"
  responses_create :: "string \<Rightarrow> 'w \<Rightarrow> (thrown + string) \<times> 'w"
  rpc_get_grid_centroids :: "'w \<Rightarrow> GridCell list option \<times> 'w"
  select_cell_vibes :: "string list \<Rightarrow> 'w \<Rightarrow> string list option \<times> 'w"
  venues_upsert :: "VenueData list \<Rightarrow> 'w \<Rightarrow> thrown option \<times> 'w"
  cell_vibes_delete :: "string \<Rightarrow> 'w \<Rightarrow> 'w"
  cell_vibes_insert :: "CellVibeData \<Rightarrow> 'w \<Rightarrow> thrown option \<times> 'w"
  toISOString :: "'w \<Rightarrow> string"
  parsePointWKT :: "string \<Rightarrow> LatLng option"

subsection \<open>googlePlaces.ts: the catalog client\<close>

text \<open>The decimal digits of a number, as a template literal prints it.\<close>

fun decimal :: "nat \<Rightarrow> string" where
  "decimal n = (if n < 10 then [char_of (48 + n)] else decimal (n div 10) @ [char_of (48 + n mod 10)])"

text \<open>\<^verbatim>\<open>fetchWithError\<close>; \<open>fetch\<close> is \<^verbatim>\<open>fetch(url, options)\<close> for the given request.\<close>

definition fetchWithError ::
  "('w \<Rightarrow> (thrown + 'b Response) \<times> 'w) \<Rightarrow> 'w \<Rightarrow> (thrown + 'b Response) \<times> 'w" where
  "fetchWithError fetch w =
     (case fetch w of
        (Inl e, w') \<Rightarrow> (Inl e, w')
      | (Inr response, w') \<Rightarrow>
          if \<not> ok response
          then (Inl \<lparr>is_Error = True,
                     message = ''HTTP '' @ decimal (resp_status response) @ '': '' @ resp_text response,
                     status = Some (resp_status response)\<rparr>, w')
          else (Inr response, w'))"

text \<open>
  The retry options of the two clients and of the scorer: \<^verbatim>\<open>{...RETRY_CONFIG, onRetry}\<close>,
  where the observer only writes to the console.
\<close>

definition client_retry_options :: "'w retry_options" where
  "client_retry_options = RETRY_CONFIG\<lparr>onRetry := Some (\<lambda>attempt err w. w)\<rparr>"

definition nearbySearch ::
  "'w env \<Rightarrow> real \<Rightarrow> real \<Rightarrow> string \<Rightarrow> 'w \<Rightarrow> (thrown + GooglePlace list) \<times> 'w" where
  "nearbySearch env lat lng placeType w =
     (let w1 = acquire_googlePlaces env w
      in case withRetry (fetchWithError (fetch_searchNearby env lat lng placeType))
                (env_sleep env) client_retry_options w1 of
           (Inl e, w2) \<Rightarrow> (Inl e, w2)
         | (Inr response, w2) \<Rightarrow>
             (case json response of
                Inl e \<Rightarrow> (Inl e, w2)
              | Inr places \<Rightarrow> (Inr (case places of None \<Rightarrow> [] | Some ps \<Rightarrow> ps), w2)))"

text \<open>The inner loop of \<^verbatim>\<open>searchAllTypes\<close>: \<open>seenIds\<close> is the set, \<open>allPlaces\<close> the array.\<close>

fun add_unseen :: "GooglePlace list \<Rightarrow> GooglePlace list \<times> string list \<Rightarrow> GooglePlace list \<times> string list" where
  "add_unseen [] (allPlaces, seenIds) = (allPlaces, seenIds)"
| "add_unseen (place # places) (allPlaces, seenIds) =
     (if place_id place \<notin> set seenIds
      then add_unseen places (allPlaces @ [place], seenIds @ [place_id place])
      else add_unseen places (allPlaces, seenIds))"

fun searchAllTypes_loop ::
  "'w env \<Rightarrow> real \<Rightarrow> real \<Rightarrow> string list \<Rightarrow> GooglePlace list \<times> string list \<Rightarrow> 'w \<Rightarrow>
   (thrown + GooglePlace list) \<times> 'w" where
  "searchAllTypes_loop env lat lng [] acc w = (Inr (fst acc), w)"
| "searchAllTypes_loop env lat lng (placeType # placeTypes) acc w =
     (case nearbySearch env lat lng placeType w of
        (Inl e, w') \<Rightarrow> (Inl e, w')
      | (Inr places, w') \<Rightarrow> searchAllTypes_loop env lat lng placeTypes (add_unseen places acc) w')"

definition searchAllTypes ::
  "'w env \<Rightarrow> real \<Rightarrow> real \<Rightarrow> string list \<Rightarrow> 'w \<Rightarrow> (thrown + GooglePlace list) \<times> 'w" where
  "searchAllTypes env lat lng placeTypes w = searchAllTypes_loop env lat lng placeTypes ([], []) w"

text \<open>
  The client object and what it acts on: the external world and the \<^verbatim>\<open>detailsCache\<close>
  map, kept as the list of its entries in insertion order (\<open>map_of\<close> is \<^verbatim>\<open>get\<close>,
  \<open>AList.update\<close> is \<^verbatim>\<open>set\<close>).
\<close>

record 'w client_state =
  world :: 'w
  detailsCache :: "(string \<times> GooglePlaceDetails) list"

text \<open>
  \<^verbatim>\<open>getPlaceDetails\<close>. A details record is an object, hence truthy, so
  \<^verbatim>\<open>if (cached)\<close> asks whether the key is in the map. \<open>None\<close> is the \<^verbatim>\<open>null\<close> that the
  \<^verbatim>\<open>catch\<close> returns; \<^verbatim>\<open>response.json()\<close> is inside the \<^verbatim>\<open>try\<close>.
\<close>

definition getPlaceDetails ::
  "'w env \<Rightarrow> string \<Rightarrow> 'w client_state \<Rightarrow> GooglePlaceDetails option \<times> 'w client_state" where
  "getPlaceDetails env placeId st =
     (case map_of (detailsCache st) placeId of
        Some cached \<Rightarrow> (Some cached, st)
      | None \<Rightarrow>
          (let w1 = acquire_googlePlaces env (world st)
           in case withRetry (fetchWithError (fetch_placeDetails env placeId))
                     (env_sleep env) client_retry_options w1 of
                (Inl e, w2) \<Rightarrow> (None, st\<lparr>world := w2\<rparr>)
              | (Inr response, w2) \<Rightarrow>
                  (case json response of
                     Inl e \<Rightarrow> (None, st\<lparr>world := w2\<rparr>)
                   | Inr data \<Rightarrow>
                       (Some data, st\<lparr>world := w2,
                          detailsCache := AList.update placeId data (detailsCache st)\<rparr>))))"

definition getCacheSize :: "'w client_state \<Rightarrow> nat" where
  "getCacheSize st = length (detailsCache st)"

text \<open>
  \<^verbatim>\<open>Array.prototype.sort\<close> with a comparator: the sort of the platform is stable, so
  an element stays before the later elements that compare equal to it. \<open>insert_cmp\<close> puts
  \<open>x\<close>, which came before all of \<open>ys\<close>, before the first \<open>y\<close> with \<open>cmp x y \<le> 0\<close>.
\<close>

fun insert_cmp :: "('a \<Rightarrow> 'a \<Rightarrow> real) \<Rightarrow> 'a \<Rightarrow> 'a list \<Rightarrow> 'a list" where
  "insert_cmp cmp x [] = [x]"
| "insert_cmp cmp x (y # ys) = (if cmp x y \<le> 0 then x # y # ys else y # insert_cmp cmp x ys)"

definition js_sort :: "('a \<Rightarrow> 'a \<Rightarrow> real) \<Rightarrow> 'a list \<Rightarrow> 'a list" where
  "js_sort cmp xs = foldr (insert_cmp cmp) xs []"

text \<open>\<^verbatim>\<open>x || 0\<close> for an optional number.\<close>

definition or0 :: "'a::zero option \<Rightarrow> 'a" where
  "or0 x = (case x of None \<Rightarrow> 0 | Some v \<Rightarrow> v)"

definition rankVenues :: "GooglePlace list \<Rightarrow> GooglePlace list" where
  "rankVenues venues =
     js_sort (\<lambda>a b.
        let scoreA = real (or0 (userRatingCount a)) * 0.7 + or0 (rating a) * 0.3;
            scoreB = real (or0 (userRatingCount b)) * 0.7 + or0 (rating b) * 0.3
        in scoreB - scoreA) venues"

definition filterQualifiedVenues :: "GooglePlace list \<Rightarrow> nat \<Rightarrow> GooglePlace list" where
  "filterQualifiedVenues venues minReviewCount =
     filter (\<lambda>v. or0 (userRatingCount v) \<ge> minReviewCount) venues"

definition getPrimaryCategory :: "string list option \<Rightarrow> string option" where
  "getPrimaryCategory tys =
     (case tys of
        None \<Rightarrow> None
      | Some [] \<Rightarrow> None
      | Some (t # ts) \<Rightarrow>
          (case find (\<lambda>ty. ty \<in> set (t # ts))
                  [''night_club'', ''bar'', ''restaurant'', ''cafe'', ''park'', ''tourist_attraction''] of
             Some ty \<Rightarrow> Some ty
           | None \<Rightarrow> Some t))"

subsection \<open>vibeScorer.ts: parsing the classifier output\<close>

text \<open>
  \<^verbatim>\<open>JSON.parse\<close> is the platform's; the model below follows the JSON grammar (ECMA-404)
  by recursive descent. A JSON string is kept as its list of code units, since an escape
  \<^verbatim>\<open>\uXXXX\<close> can name any of them. A number is the real that its decimal text denotes.
\<close>

datatype json =
  JNull
| JBool bool
| JNumber real
| JString "nat list"
| JArray "json list"
| JObject "(nat list \<times> json) list"

definition is_json_ws :: "char \<Rightarrow> bool" where
  "is_json_ws c = ((of_char c :: nat) \<in> {9, 10, 13, 32})"

definition skip_ws :: "string \<Rightarrow> string" where
  "skip_ws cs = dropWhile is_json_ws cs"

definition hex_val :: "char \<Rightarrow> nat option" where
  "hex_val c =
     (let n = (of_char c :: nat)
      in if 48 \<le> n \<and> n \<le> 57 then Some (n - 48)
         else if 65 \<le> n \<and> n \<le> 70 then Some (n - 55)
         else if 97 \<le> n \<and> n \<le> 102 then Some (n - 87)
         else None)"

text \<open>The character after a backslash, other than \<^verbatim>\<open>u\<close>, and the code unit it stands for.\<close>

definition unescape :: "char \<Rightarrow> nat option" where
  \<open>unescape c =
     (if c = CHR ''"'' then Some 34
      else if c = CHR 0x5C then Some 92
      else if c = CHR ''/'' then Some 47
      else if c = CHR ''b'' then Some 8
      else if c = CHR ''f'' then Some 12
      else if c = CHR ''n'' then Some 10
      else if c = CHR ''r'' then Some 13
      else if c = CHR ''t'' then Some 9
      else None)\<close>

definition cons_unit :: "nat \<Rightarrow> (nat list \<times> string) option \<Rightarrow> (nat list \<times> string) option" where
  "cons_unit u r = (case r of None \<Rightarrow> None | Some (us, rest) \<Rightarrow> Some (u # us, rest))"

text \<open>The characters of a string after its opening quote, up to the closing quote.\<close>

fun parse_string_chars :: "string \<Rightarrow> (nat list \<times> string) option" where
  "parse_string_chars [] = None"
| \<open>parse_string_chars (c # cs) =
     (if c = CHR ''"'' then Some ([], cs)
      else if c = CHR 0x5C then
        (case cs of
           [] \<Rightarrow> None
         | e # cs1 \<Rightarrow>
             if e = CHR ''u'' then
               (case cs1 of
                  h1 # h2 # h3 # h4 # cs2 \<Rightarrow>
                    (case (hex_val h1, hex_val h2, hex_val h3, hex_val h4) of
                       (Some a, Some b, Some c, Some d) \<Rightarrow>
                         cons_unit (((a * 16 + b) * 16 + c) * 16 + d) (parse_string_chars cs2)
                     | _ \<Rightarrow> None)
                | _ \<Rightarrow> None)
             else
               (case unescape e of
                  None \<Rightarrow> None
                | Some u \<Rightarrow> cons_unit u (parse_string_chars cs1)))
      else if (of_char c :: nat) < 32 then None
      else cons_unit (of_char c) (parse_string_chars cs))\<close>

definition digits_val :: "string \<Rightarrow> nat" where
  "digits_val ds = foldl (\<lambda>n c. 10 * n + digit_val c) 0 ds"

text \<open>
  A number: an optional minus, an integer part without a leading zero, an optional
  fraction, an optional exponent.
\<close>

definition parse_number :: "string \<Rightarrow> (real \<times> string) option" where
  "parse_number cs =
     (let neg = (cs \<noteq> [] \<and> hd cs = CHR ''-'');
          cs1 = (if neg then tl cs else cs);
          ds = takeWhile is_digit cs1
      in if ds = [] then None
         else
           let ip = (if hd ds = CHR ''0'' then [hd ds] else ds);
               cs2 = drop (length ip) cs1;
               has_frac = (cs2 \<noteq> [] \<and> hd cs2 = CHR ''.'');
               fr = (if has_frac then takeWhile is_digit (tl cs2) else []);
               cs3 = (if has_frac then dropWhile is_digit (tl cs2) else cs2);
               has_exp = (cs3 \<noteq> [] \<and> (hd cs3 = CHR ''e'' \<or> hd cs3 = CHR ''E''));
               cs4 = (if has_exp then tl cs3 else cs3);
               exp_neg = (has_exp \<and> cs4 \<noteq> [] \<and> hd cs4 = CHR ''-'');
               cs5 = (if has_exp \<and> cs4 \<noteq> [] \<and> (hd cs4 = CHR ''-'' \<or> hd cs4 = CHR ''+'') then tl cs4 else cs4);
               es = (if has_exp then takeWhile is_digit cs5 else []);
               cs6 = (if has_exp then dropWhile is_digit cs5 else cs3);
               mant = real (digits_val ip) + real (digits_val fr) / 10 ^ length fr;
               scaled = (if exp_neg then mant / 10 ^ digits_val es else mant * 10 ^ digits_val es)
           in if has_frac \<and> fr = [] then None
              else if has_exp \<and> es = [] then None
              else Some (if neg then - scaled else scaled, cs6))"

text \<open>
  A value, the elements of a non-empty array after its bracket, and the members of a
  non-empty object after its brace. The first argument bounds the number of nested and
  chained calls; \<open>JSON_parse\<close> starts it above any number that a text of that length needs
  (each call but the first follows at least one character consumed, and a value, an
  element or a member never takes more than two calls per character).
\<close>

fun parse_value :: "nat \<Rightarrow> string \<Rightarrow> (json \<times> string) option"
  and parse_elements :: "nat \<Rightarrow> string \<Rightarrow> (json list \<times> string) option"
  and parse_members :: "nat \<Rightarrow> string \<Rightarrow> ((nat list \<times> json) list \<times> string) option" where
  "parse_value 0 cs = None"
| \<open>parse_value (Suc n) cs =
     (case skip_ws cs of
        [] \<Rightarrow> None
      | c # r \<Rightarrow>
          if c = CHR ''{'' then
            (case skip_ws r of
               [] \<Rightarrow> None
             | c1 # r1 \<Rightarrow>
                 if c1 = CHR ''}'' then Some (JObject [], r1)
                 else (case parse_members n (c1 # r1) of
                         None \<Rightarrow> None
                       | Some (ms, rest) \<Rightarrow> Some (JObject ms, rest)))
          else if c = CHR ''['' then
            (case skip_ws r of
               [] \<Rightarrow> None
             | c1 # r1 \<Rightarrow>
                 if c1 = CHR '']'' then Some (JArray [], r1)
                 else (case parse_elements n (c1 # r1) of
                         None \<Rightarrow> None
                       | Some (vs, rest) \<Rightarrow> Some (JArray vs, rest)))
          else if c = CHR ''"'' then
            (case parse_string_chars r of
               None \<Rightarrow> None
             | Some (us, rest) \<Rightarrow> Some (JString us, rest))
          else if take 4 (c # r) = ''true'' then Some (JBool True, drop 4 (c # r))
          else if take 5 (c # r) = ''false'' then Some (JBool False, drop 5 (c # r))
          else if take 4 (c # r) = ''null'' then Some (JNull, drop 4 (c # r))
          else (case parse_number (c # r) of
                  None \<Rightarrow> None
                | Some (x, rest) \<Rightarrow> Some (JNumber x, rest)))\<close>
| "parse_elements 0 cs = None"
| \<open>parse_elements (Suc n) cs =
     (case parse_value n cs of
        None \<Rightarrow> None
      | Some (v, r) \<Rightarrow>
          (case skip_ws r of
             [] \<Rightarrow> None
           | c # r1 \<Rightarrow>
               if c = CHR '','' then
                 (case parse_elements n r1 of
                    None \<Rightarrow> None
                  | Some (vs, rest) \<Rightarrow> Some (v # vs, rest))
               else if c = CHR '']'' then Some ([v], r1)
               else None))\<close>
| "parse_members 0 cs = None"
| \<open>parse_members (Suc n) cs =
     (case skip_ws cs of
        [] \<Rightarrow> None
      | c # r \<Rightarrow>
          if c = CHR ''"'' then
            (case parse_string_chars r of
               None \<Rightarrow> None
             | Some (k, r1) \<Rightarrow>
                 (case skip_ws r1 of
                    [] \<Rightarrow> None
                  | c1 # r2 \<Rightarrow>
                      if c1 = CHR '':'' then
                        (case parse_value n r2 of
                           None \<Rightarrow> None
                         | Some (v, r3) \<Rightarrow>
                             (case skip_ws r3 of
                                [] \<Rightarrow> None
                              | c3 # r4 \<Rightarrow>
                                  if c3 = CHR '','' then
                                    (case parse_members n r4 of
                                       None \<Rightarrow> None
                                     | Some (ms, rest) \<Rightarrow> Some ((k, v) # ms, rest))
                                  else if c3 = CHR ''}'' then Some ([(k, v)], r4)
                                  else None))
                      else None))
          else None)\<close>

text \<open>\<^verbatim>\<open>JSON.parse(text)\<close>: \<open>None\<close> is the \<^verbatim>\<open>SyntaxError\<close>.\<close>

definition JSON_parse :: "string \<Rightarrow> json option" where
  "JSON_parse s =
     (case parse_value (2 * length s + 2) s of
        None \<Rightarrow> None
      | Some (v, rest) \<Rightarrow> if skip_ws rest = [] then Some v else None)"

text \<open>
  \<^verbatim>\<open>parsed[key]\<close> for one of the dimension names: the value of the last member with that
  key, \<open>None\<close> (\<^verbatim>\<open>undefined\<close>) when there is none or \<open>parsed\<close> is not an object.
\<close>

definition json_get :: "json \<Rightarrow> string \<Rightarrow> json option" where
  "json_get parsed key =
     (case parsed of
        JObject ms \<Rightarrow> map_of (rev ms) (map of_char key)
      | _ \<Rightarrow> None)"

text \<open>
  \<^verbatim>\<open>text.match(/\{[\s\S]*\}/)\<close>: from the first \<^verbatim>\<open>{\<close>, the greedy \<^verbatim>\<open>[\s\S]*\<close> runs to
  the end of the text and gives back as little as it must, so the match ends at the last
  \<^verbatim>\<open>}\<close> after that brace; there is no match when no \<^verbatim>\<open>}\<close> follows the first \<^verbatim>\<open>{\<close>.
\<close>

definition jsonMatch :: "string \<Rightarrow> string option" where
  "jsonMatch txt =
     (let r = dropWhile (\<lambda>c. c \<noteq> CHR ''{'') txt
      in if r = [] then None
         else
           let upto_last = rev (dropWhile (\<lambda>c. c \<noteq> CHR ''}'') (rev (tl r)))
           in if upto_last = [] then None else Some (CHR ''{'' # upto_last))"

text \<open>\<^verbatim>\<open>Math.round(value * 100) / 100\<close>; \<^verbatim>\<open>Math.round\<close> rounds a half up.\<close>

definition round2 :: "real \<Rightarrow> real" where
  "round2 v = real_of_int \<lfloor>v * 100 + 1 / 2\<rfloor> / 100"

definition emptyVibeScores :: VibeScores where
  "emptyVibeScores = \<lparr>lively = None, social = None, upscale = None, casual = None,
     trendy = None, local = None, photogenic = None\<rparr>"

text \<open>
  \<^verbatim>\<open>parseVibeScores\<close>, over the JSON parser \<open>parse\<close>. The \<^verbatim>\<open>catch\<close> returns the scores
  object, which is still all \<^verbatim>\<open>null\<close> when \<^verbatim>\<open>JSON.parse\<close> throws.
\<close>

definition parseVibeScores_with :: "(string \<Rightarrow> json option) \<Rightarrow> string \<Rightarrow> VibeScores" where
  "parseVibeScores_with parse txt =
     (let scores0 = \<lparr>lively = None, social = None, upscale = None, casual = None,
                      trendy = None, local = None, photogenic = None\<rparr>
      in case jsonMatch txt of
           None \<Rightarrow> scores0
         | Some m \<Rightarrow>
             (case parse m of
                None \<Rightarrow> scores0
              | Some parsed \<Rightarrow>
                  foldl (\<lambda>sc dm.
                      case json_get parsed dm of
                        Some (JNumber v) \<Rightarrow> if v \<ge> 0 \<and> v \<le> 1 then set_dim dm (Some (round2 v)) sc else sc
                      | _ \<Rightarrow> sc)
                    scores0 VIBE_DIMENSIONS))"

definition parseVibeScores :: "string \<Rightarrow> VibeScores" where
  "parseVibeScores txt = parseVibeScores_with JSON_parse txt"

definition scoreVibes :: "'w env \<Rightarrow> string \<Rightarrow> 'w \<Rightarrow> (thrown + VibeScores) \<times> 'w" where
  \<open>scoreVibes env reviewText w =
     (let w1 = acquire_openai env w;
          prompt = ''Reviews:'' @ [CHR 0x0A] @ ''"""'' @ [CHR 0x0A] @ reviewText @ [CHR 0x0A] @ ''"""''
      in case withRetry (responses_create env prompt) (env_sleep env) client_retry_options w1 of
           (Inl e, w2) \<Rightarrow> (Inl e, w2)
         | (Inr outputText, w2) \<Rightarrow> (Inr (parseVibeScores outputText), w2))\<close>

subsection \<open>vibeScorer.ts: aggregating reviews\<close>

text \<open>\<^verbatim>\<open>s.trim()\<close>.\<close>

definition trim :: "string \<Rightarrow> string" where
  "trim s = rev (dropWhile is_js_space (rev (dropWhile is_js_space s)))"

definition MAX_CHARS :: nat where
  "MAX_CHARS = 8000"

text \<open>The first loop of \<^verbatim>\<open>aggregateReviews\<close>: the array \<^verbatim>\<open>reviewTexts\<close>.\<close>

definition place_review_texts :: "GooglePlaceDetails \<Rightarrow> string list" where
  "place_review_texts place =
     (case reviews place of
        None \<Rightarrow> []
      | Some rs \<Rightarrow>
          concat (map (\<lambda>review.
              case review_text review of
                None \<Rightarrow> []
              | Some t \<Rightarrow> if t \<noteq> [] \<and> trim t \<noteq> [] then [trim t] else []) rs))"

definition reviewTexts :: "GooglePlaceDetails list \<Rightarrow> string list" where
  "reviewTexts placeDetails = concat (map place_review_texts placeDetails)"

text \<open>The second loop, with its \<^verbatim>\<open>break\<close>.\<close>

fun append_within_budget :: "string \<Rightarrow> string list \<Rightarrow> string" where
  "append_within_budget aggregated [] = aggregated"
| "append_within_budget aggregated (t # ts) =
     (if length aggregated + length t + 2 > MAX_CHARS then aggregated
      else append_within_budget (aggregated @ t @ [CHR 0x0A, CHR 0x0A]) ts)"

text \<open>\<^verbatim>\<open>aggregateReviews\<close> returns the pair of \<^verbatim>\<open>text\<close> and \<^verbatim>\<open>count\<close>.\<close>

definition aggregateReviews :: "GooglePlaceDetails list \<Rightarrow> string \<times> nat" where
  "aggregateReviews placeDetails =
     (trim (append_within_budget [] (reviewTexts placeDetails)), length (reviewTexts placeDetails))"

subsection \<open>ingestCity.ts: options and loading\<close>






subsection \<open>ingestCity.ts: the store writes\<close>

text \<open>\<^verbatim>\<open>upsertVenues\<close>: a store error is written to the console and dropped.\<close>

definition upsertVenues :: "'w env \<Rightarrow> VenueData list \<Rightarrow> bool \<Rightarrow> 'w \<Rightarrow> 'w" where
  "upsertVenues env venues dry w =
     (if dry \<or> venues = [] then w
      else case venues_upsert env venues w of
             (Some err, w1) \<Rightarrow> w1
           | (None, w1) \<Rightarrow> w1)"

text \<open>\<^verbatim>\<open>upsertCellVibes\<close>: delete, insert, and \<^verbatim>\<open>throw error\<close> when the insert reports one.\<close>

definition upsertCellVibes :: "'w env \<Rightarrow> CellVibeData \<Rightarrow> bool \<Rightarrow> 'w \<Rightarrow> (thrown + unit) \<times> 'w" where
  "upsertCellVibes env vibes dry w =
     (if dry then (Inr (), w)
      else
        let w1 = cell_vibes_delete env (vibe_grid_cell_id vibes) w
        in case cell_vibes_insert env vibes w1 of
             (Some err, w2) \<Rightarrow> (Inl err, w2)
           | (None, w2) \<Rightarrow> (Inr (), w2))"

subsection \<open>ingestCity.ts: the per-cell pipeline\<close>

text \<open>Step 4 of \<^verbatim>\<open>processCell\<close>: the record of one ranked venue.\<close>

definition venueRecord :: "GridCell \<Rightarrow> LatLng \<Rightarrow> GooglePlace \<Rightarrow> VenueData" where
  "venueRecord cell coords place =
     \<lparr>google_place_id = place_id place,
      grid_cell_id = cell_id cell,
      name = (case displayName place of None \<Rightarrow> ''Unknown'' | Some t \<Rightarrow> if t = [] then ''Unknown'' else t),
      category = getPrimaryCategory (types place),
      venue_rating = (case rating place of None \<Rightarrow> None | Some r \<Rightarrow> if r = 0 then None else Some r),
      review_count = (case userRatingCount place of None \<Rightarrow> None | Some c \<Rightarrow> if c = 0 then None else Some c),
      venue_location = (case location place of
                          Some l \<Rightarrow> (longitude l, latitude l)
                        | None \<Rightarrow> (longitude coords, latitude coords))\<rparr>"

text \<open>Step 7: the details of the top venues, in order; a \<^verbatim>\<open>null\<close> is left out.\<close>

fun fetchDetails_loop ::
  "'w env \<Rightarrow> GooglePlace list \<Rightarrow> GooglePlaceDetails list \<Rightarrow> 'w client_state \<Rightarrow>
   GooglePlaceDetails list \<times> 'w client_state" where
  "fetchDetails_loop env [] placeDetails st = (placeDetails, st)"
| "fetchDetails_loop env (venue # venues) placeDetails st =
     (case getPlaceDetails env (place_id venue) st of
        (Some details, st1) \<Rightarrow> fetchDetails_loop env venues (placeDetails @ [details]) st1
      | (None, st1) \<Rightarrow> fetchDetails_loop env venues placeDetails st1)"

text \<open>
  \<^verbatim>\<open>processCell\<close>. \<open>Inl\<close> is a throw: the centroid that does not parse, a failed search,
  a failed classifier call, a failed insert of the scores.
\<close>

definition processCell ::
  "'w env \<Rightarrow> GridCell \<Rightarrow> CliOptions \<Rightarrow> 'w client_state \<Rightarrow> (thrown + unit) \<times> 'w client_state" where
  "processCell env cell options st =
     (case parsePointWKT env (centroid cell) of
        None \<Rightarrow>
          (Inl \<lparr>is_Error = True, message = ''Failed to parse centroid for cell '' @ cell_id cell,
                status = None\<rparr>, st)
      | Some coords \<Rightarrow>
          (case searchAllTypes env (latitude coords) (longitude coords) PLACE_TYPES (world st) of
             (Inl e, w1) \<Rightarrow> (Inl e, st\<lparr>world := w1\<rparr>)
           | (Inr allPlaces, w1) \<Rightarrow>
               (let qualifiedVenues = filterQualifiedVenues allPlaces MIN_REVIEW_COUNT;
                    rankedVenues = rankVenues qualifiedVenues;
                    topVenues = take TOP_VENUES_PER_CELL rankedVenues;
                    venueData = map (venueRecord cell coords) rankedVenues;
                    w2 = upsertVenues env venueData (dryRun options) w1
                in if topVenues = [] then
                     (case upsertCellVibes env
                             \<lparr>vibe_grid_cell_id = cell_id cell, vibe_scores = emptyVibeScores,
                              source_review_count = 0, model_name = None,
                              computed_at = toISOString env w2\<rparr>
                             (dryRun options) w2 of
                        (r, w3) \<Rightarrow> (r, st\<lparr>world := w3\<rparr>))
                   else
                     (case fetchDetails_loop env topVenues [] (st\<lparr>world := w2\<rparr>) of
                        (placeDetails, st3) \<Rightarrow>
                          (let (reviewText, reviewCount) = aggregateReviews placeDetails
                           in case (if reviewText = [] then (Inr emptyVibeScores, world st3)
                                    else scoreVibes env reviewText (world st3)) of
                                (Inl e, w4) \<Rightarrow> (Inl e, st3\<lparr>world := w4\<rparr>)
                              | (Inr vibeScores, w4) \<Rightarrow>
                                  (case upsertCellVibes env
                                          \<lparr>vibe_grid_cell_id = cell_id cell, vibe_scores = vibeScores,
                                           source_review_count = reviewCount,
                                           model_name = (if reviewText \<noteq> [] then Some LLM_MODEL else None),
                                           computed_at = toISOString env w4\<rparr>
                                          (dryRun options) w4 of
                                     (r, w5) \<Rightarrow> (r, st3\<lparr>world := w5\<rparr>)))))))"

subsection \<open>ingestCity.ts: the orchestrator loop\<close>

text \<open>What the loop of \<^verbatim>\<open>main\<close> acts on: the client, the ledger, the counter.\<close>

record 'w run =
  client :: "'w client_state"
  failedCells :: "FailedCell list"
  processed :: nat

text \<open>
  One iteration of \<^verbatim>\<open>for (const cell of cells)\<close>; \<open>n_cells\<close> is \<^verbatim>\<open>cells.length\<close>.
  The \<^verbatim>\<open>catch\<close> takes the message of what was thrown and the time of the catch.
\<close>

definition main_step :: "'w env \<Rightarrow> CliOptions \<Rightarrow> nat \<Rightarrow> GridCell \<Rightarrow> 'w run \<Rightarrow> 'w run" where
  "main_step env options n_cells cell r =
     (let processed1 = processed r + 1;
          (res, st1) = processCell env cell options (client r);
          failed1 = (case res of
                       Inr u \<Rightarrow> failedCells r
                     | Inl e \<Rightarrow> failedCells r @
                         [\<lparr>cellId = cell_id cell, error = message e,
                           timestamp = toISOString env (world st1)\<rparr>]);
          st2 = (if processed1 < n_cells
                 then st1\<lparr>world := env_sleep env betweenCells_delayMs (world st1)\<rparr>
                 else st1)
      in \<lparr>client = st2, failedCells = failed1, processed = processed1\<rparr>)"

fun main_loop :: "'w env \<Rightarrow> CliOptions \<Rightarrow> nat \<Rightarrow> GridCell list \<Rightarrow> 'w run \<Rightarrow> 'w run" where
  "main_loop env options n_cells [] r = r"
| "main_loop env options n_cells (cell # cells) r =
     main_loop env options n_cells cells (main_step env options n_cells cell r)"

text \<open>The counts of the summary that \<^verbatim>\<open>main\<close> prints.\<close>

record summary =
  summary_processed :: nat
  summary_succeeded :: int
  summary_failed :: nat

definition summarize :: "'w run \<Rightarrow> summary" where
  "summarize r =
     \<lparr>summary_processed = processed r,
      summary_succeeded = int (processed r) - int (length (failedCells r)),
      summary_failed = length (failedCells r)\<rparr>"

text \<open>
  The cell loop of \<^verbatim>\<open>main\<close> and its summary, from a fresh client: an empty cell list
  returns before the loop.
\<close>

definition run_cells :: "'w env \<Rightarrow> CliOptions \<Rightarrow> GridCell list \<Rightarrow> 'w \<Rightarrow> 'w run" where
  "run_cells env options cells w =
     main_loop env options (length cells) cells
       \<lparr>client = \<lparr>world = w, detailsCache = []\<rparr>, failedCells = [], processed = 0\<rparr>"

subsection \<open>Notions of the specification\<close>

text \<open>
  The composite score of the ranking: 0.7 times the rating count plus 0.3 times the
  rating, a missing rating or rating count counting as 0.
\<close>

definition compositeScore :: "GooglePlace \<Rightarrow> real" where
  "compositeScore v =
     0.7 * real (case userRatingCount v of None \<Rightarrow> 0 | Some c \<Rightarrow> c)
     + 0.3 * (case rating v of None \<Rightarrow> 0 | Some r \<Rightarrow> r)"

text \<open>
  The separator of the aggregated text, the text of a list of snippets with a blank line
  between them, and the same with a blank line after each, as the loop builds it.
\<close>

definition blank_line :: string where
  "blank_line = [CHR 0x0A, CHR 0x0A]"

fun join_blank :: "string list \<Rightarrow> string" where
  "join_blank [] = []"
| "join_blank [t] = t"
| "join_blank (t # u # ts) = t @ blank_line @ join_blank (u # ts)"

text \<open>Every review text of the input that is present, in input order.\<close>

definition all_snippets :: "GooglePlaceDetails list \<Rightarrow> string list" where
  "all_snippets placeDetails =
     concat (map (\<lambda>place. case reviews place of
                              None \<Rightarrow> []
                            | Some rs \<Rightarrow> concat (map (\<lambda>review. case review_text review of None \<Rightarrow> [] | Some t \<Rightarrow> [t]) rs))
                 placeDetails)"

definition with_separators :: "string list \<Rightarrow> string" where
  "with_separators ts = concat (map (\<lambda>t. t @ blank_line) ts)"

text \<open>
  The number of leading snippets that the budget admits when \<open>used\<close> characters are
  taken: it stops at the first snippet that, with its separator, would go over.
\<close>

fun fit_count :: "nat \<Rightarrow> string list \<Rightarrow> nat" where
  "fit_count used [] = 0"
| "fit_count used (t # ts) =
     (if used + length t + 2 > MAX_CHARS then 0 else Suc (fit_count (used + length t + 2) ts))"

text \<open>A text that is not empty and neither starts nor ends with white space.\<close>

definition trimmed :: "string \<Rightarrow> bool" where
  "trimmed s = (s \<noteq> [] \<and> \<not> is_js_space (hd s) \<and> \<not> is_js_space (last s))"

text \<open>Records for the examples: a review with the given text, a place with the given reviews.\<close>

definition example_review :: "string option \<Rightarrow> Review" where
  "example_review t = \<lparr>review_text = t, review_rating = None, relativePublishTimeDescription = None\<rparr>"

definition example_details :: "string \<Rightarrow> string option list \<Rightarrow> GooglePlaceDetails" where
  "example_details pid texts =
     \<lparr>place_id = pid, displayName = None, rating = None, userRatingCount = None, types = None,
      location = None, reviews = Some (map example_review texts)\<rparr>"

text \<open>
  The value that the specification keeps for a dimension of a parsed response: the number
  given for it, rounded to two decimals, if it is a number within [0,1]; nothing otherwise.
\<close>

definition accepted :: "json \<Rightarrow> string \<Rightarrow> real option" where
  "accepted parsed dm =
     (case json_get parsed dm of
        Some (JNumber v) \<Rightarrow> if 0 \<le> v \<and> v \<le> 1 then Some (round2 v) else None
      | _ \<Rightarrow> None)"



text \<open>The score set that a JSON text gives: all absent when it does not parse.\<close>

definition scores_of_object :: "string \<Rightarrow> VibeScores" where
  "scores_of_object m =
     (case JSON_parse m of
        None \<Rightarrow> emptyVibeScores
      | Some parsed \<Rightarrow>
          \<lparr>lively = accepted parsed ''lively'', social = accepted parsed ''social'',
           upscale = accepted parsed ''upscale'', casual = accepted parsed ''casual'',
           trendy = accepted parsed ''trendy'', local = accepted parsed ''local'',
           photogenic = accepted parsed ''photogenic''\<rparr>)"

text \<open>
  The first balanced object substring, in the words of the specification: from a
  \<^verbatim>\<open>{\<close>, the text up to the \<^verbatim>\<open>}\<close> that closes it (\<open>d\<close> counts the braces open inside),
  taking the leftmost \<^verbatim>\<open>{\<close> that is ever closed.
\<close>

fun balanced_rest :: "nat \<Rightarrow> string \<Rightarrow> string option" where
  "balanced_rest d [] = None"
| "balanced_rest d (c # cs) =
     (if c = CHR ''{'' then map_option ((#) c) (balanced_rest (Suc d) cs)
      else if c = CHR ''}'' then
        (if d = 0 then Some [c] else map_option ((#) c) (balanced_rest (d - 1) cs))
      else map_option ((#) c) (balanced_rest d cs))"

fun first_balanced_object :: "string \<Rightarrow> string option" where
  "first_balanced_object [] = None"
| "first_balanced_object (c # cs) =
     (if c = CHR ''{'' then
        (case balanced_rest 0 cs of
           Some b \<Rightarrow> Some (c # b)
         | None \<Rightarrow> first_balanced_object cs)
      else first_balanced_object cs)"

text \<open>Score parsing as the specification words it: parse the first balanced object.\<close>

definition parseVibeScores_spec :: "string \<Rightarrow> VibeScores" where
  "parseVibeScores_spec raw =
     (case first_balanced_object raw of
        None \<Rightarrow> emptyVibeScores
      | Some m \<Rightarrow> scores_of_object m)"



text \<open>
  What happened to each cell of a run, in order: the cell, what \<^verbatim>\<open>processCell\<close> returned
  or threw for it in the state the loop had reached, and the time of the catch.
\<close>

fun outcomes ::
  "'w env \<Rightarrow> CliOptions \<Rightarrow> nat \<Rightarrow> GridCell list \<Rightarrow> 'w run \<Rightarrow> (GridCell \<times> (thrown + unit) \<times> string) list" where
  "outcomes env options n_cells [] r = []"
| "outcomes env options n_cells (cell # cells) r =
     (cell, fst (processCell env cell options (client r)),
      toISOString env (world (snd (processCell env cell options (client r)))))
     # outcomes env options n_cells cells (main_step env options n_cells cell r)"

text \<open>The failure records of the cells that threw, and the number of cells that did not.\<close>

fun ledger_of :: "(GridCell \<times> (thrown + unit) \<times> string) list \<Rightarrow> FailedCell list" where
  "ledger_of [] = []"
| "ledger_of ((cell, Inl e, ts) # os) =
     \<lparr>cellId = cell_id cell, error = message e, timestamp = ts\<rparr> # ledger_of os"
| "ledger_of ((cell, Inr u, ts) # os) = ledger_of os"

definition succeeded_of :: "(GridCell \<times> (thrown + unit) \<times> string) list \<Rightarrow> nat" where
  "succeeded_of os = length (filter (\<lambda>(cell, res, ts). \<not> isl res) os)"


text \<open>
  The requests that the scripts make of the services: a venue upsert with its records, a
  request for the details of a place, a call of the classifier with its prompt.
\<close>

datatype service_event =
  VenueUpsert "VenueData list"
| DetailsRequest string
| ClassifierCall string

text \<open>
  An environment whose world keeps a log \<open>obs\<close> of these requests: each of the three
  operations adds its request and no other operation touches the log.
\<close>

definition observed :: "'w env \<Rightarrow> ('w \<Rightarrow> service_event list) \<Rightarrow> bool" where
  "observed env obs \<longleftrightarrow>
     (\<forall>ms w. obs (env_sleep env ms w) = obs w)
   \<and> (\<forall>w. obs (acquire_googlePlaces env w) = obs w)
   \<and> (\<forall>w. obs (acquire_openai env w) = obs w)
   \<and> (\<forall>lat lng ty w. obs (snd (fetch_searchNearby env lat lng ty w)) = obs w)
   \<and> (\<forall>pid w. obs (snd (fetch_placeDetails env pid w)) = obs w @ [DetailsRequest pid])
   \<and> (\<forall>p w. obs (snd (responses_create env p w)) = obs w @ [ClassifierCall p])
   \<and> (\<forall>v w. obs (snd (venues_upsert env v w)) = obs w @ [VenueUpsert v])
   \<and> (\<forall>c w. obs (cell_vibes_delete env c w) = obs w)
   \<and> (\<forall>v w. obs (snd (cell_vibes_insert env v w)) = obs w)"

text \<open>The prompt that \<^verbatim>\<open>scoreVibes\<close> builds from the aggregated text.\<close>

definition classifier_prompt :: "string \<Rightarrow> string" where
  \<open>classifier_prompt reviewText =
     ''Reviews:'' @ [CHR 0x0A] @ ''"""'' @ [CHR 0x0A] @ reviewText @ [CHR 0x0A] @ ''"""''\<close>

text \<open>The client after a sequence of \<^verbatim>\<open>getPlaceDetails\<close> calls.\<close>

definition getPlaceDetails_many :: "'w env \<Rightarrow> string list \<Rightarrow> 'w client_state \<Rightarrow> 'w client_state" where
  "getPlaceDetails_many env placeIds st = foldl (\<lambda>s placeId. snd (getPlaceDetails env placeId s)) st placeIds"

subsection \<open>A simulated world for the examples\<close>

text \<open>
  The examples run the scripts against services with a fixed behaviour. The world records
  what happened: the time slept, the requests made of the services in order, and the rows
  of each venue upsert and each score insert that the store accepted.
\<close>

record sim_world =
  clock :: nat
  events :: "service_event list"
  venue_rows :: "VenueData list list"
  vibe_rows :: "CellVibeData list"

definition sim_start :: sim_world where
  "sim_start = \<lparr>clock = 0, events = [], venue_rows = [], vibe_rows = []\<rparr>"

text \<open>
  The behaviour: the cells of the city and the cells already scored, the answer to a
  search by latitude and place type, the answer to a details request by identifier, the
  answer of the classifier, the error of the store on a venue upsert, its error on a score
  insert by cell, and the centroids that parse.
\<close>

record sim_services =
  sim_cells :: "GridCell list option"
  sim_scored :: "string list option"
  sim_search :: "real \<Rightarrow> string \<Rightarrow> thrown + GooglePlace list option Response"
  sim_details :: "string \<Rightarrow> thrown + GooglePlaceDetails Response"
  sim_classifier :: "thrown + string"
  sim_upsert_error :: "thrown option"
  sim_insert_error :: "string \<Rightarrow> thrown option"
  sim_centroid :: "string \<Rightarrow> LatLng option"

definition ok_response :: "'b \<Rightarrow> 'b Response" where
  "ok_response body = \<lparr>ok = True, resp_status = 200, resp_text = [], json = Inr body\<rparr>"

definition error_response :: "nat \<Rightarrow> string \<Rightarrow> 'b Response" where
  "error_response code body =
     \<lparr>ok = False, resp_status = code, resp_text = body,
      json = Inl \<lparr>is_Error = True, message = ''Unexpected token'', status = None\<rparr>\<rparr>"

definition sim_env :: "sim_services \<Rightarrow> sim_world env" where
  "sim_env svc =
     \<lparr>env_sleep = (\<lambda>ms w. w\<lparr>clock := clock w + ms\<rparr>),
      acquire_googlePlaces = (\<lambda>w. w),
      acquire_openai = (\<lambda>w. w),
      fetch_searchNearby = (\<lambda>lat lng placeType w. (sim_search svc lat placeType, w)),
      fetch_placeDetails = (\<lambda>placeId w.
         (sim_details svc placeId, w\<lparr>events := events w @ [DetailsRequest placeId]\<rparr>)),
      responses_create = (\<lambda>prompt w.
         (sim_classifier svc, w\<lparr>events := events w @ [ClassifierCall prompt]\<rparr>)),
      rpc_get_grid_centroids = (\<lambda>w. (sim_cells svc, w)),
      select_cell_vibes = (\<lambda>ids w. (map_option (filter (\<lambda>i. i \<in> set ids)) (sim_scored svc), w)),
      venues_upsert = (\<lambda>venues w.
         (case sim_upsert_error svc of
            Some e \<Rightarrow> (Some e, w\<lparr>events := events w @ [VenueUpsert venues]\<rparr>)
          | None \<Rightarrow> (None, w\<lparr>events := events w @ [VenueUpsert venues],
                                 venue_rows := venue_rows w @ [venues]\<rparr>))),
      cell_vibes_delete = (\<lambda>cid w. w\<lparr>vibe_rows := filter (\<lambda>v. vibe_grid_cell_id v \<noteq> cid) (vibe_rows w)\<rparr>),
      cell_vibes_insert = (\<lambda>vibes w.
         (case sim_insert_error svc (vibe_grid_cell_id vibes) of
            Some e \<Rightarrow> (Some e, w)
          | None \<Rightarrow> (None, w\<lparr>vibe_rows := vibe_rows w @ [vibes]\<rparr>))),
      toISOString = (\<lambda>w. ''t+'' @ decimal (clock w)),
      parsePointWKT = sim_centroid svc\<rparr>"

text \<open>Example data: a cell, a place with a rating and a rating count, quiet services.\<close>

definition example_cell :: "string \<Rightarrow> GridCell" where
  "example_cell cid = \<lparr>cell_id = cid, city_id = ''city'', centroid = ''POINT(0 0)''\<rparr>"


definition quiet_services :: sim_services where
  "quiet_services =
     \<lparr>sim_cells = Some [], sim_scored = Some [],
      sim_search = (\<lambda>lat placeType. Inr (ok_response None)),
      sim_details = (\<lambda>placeId. Inr (error_response 404 ''not found'')),
      sim_classifier = Inr ''{}'',
      sim_upsert_error = None,
      sim_insert_error = (\<lambda>cid. None),
      sim_centroid = (\<lambda>s. if s = ''POINT(0 0)'' then Some \<lparr>latitude = 0, longitude = 0\<rparr> else None)\<rparr>"




section \<open>Properties\<close>

subsection \<open>The retry executor\<close>

declare withRetry_loop.simps [simp del]

declare decimal.simps [simp del]

lemma withRetry_loop_Inr:
  assumes "attempt \<le> maxRetries options" and "fn s = (Inr v, s')"
  shows "withRetry_loop fn sleep options attempt lastError s = ((Inr v, s'), [Attempted None])"
  by (subst withRetry_loop.simps) (simp add: assms)










subsection \<open>Ranking\<close>

lemma insert_cmp_insort_key:
  "insert_cmp (\<lambda>a b. f b - f a) x ys = insort_key (\<lambda>v. - f v) x ys"
  by (induction ys) auto

lemma js_sort_sort_key:
  "js_sort (\<lambda>a b. f b - f a) xs = sort_key (\<lambda>v. - f v) xs"
  by (induction xs) (simp_all add: js_sort_def insert_cmp_insort_key)

lemma rankVenues_sort_key:
  "rankVenues venues = sort_key (\<lambda>v. - compositeScore v) venues"
proof -
  have "rankVenues venues = js_sort (\<lambda>a b. compositeScore b - compositeScore a) venues"
    by (simp add: rankVenues_def compositeScore_def or0_def Let_def mult.commute)
  then show ?thesis by (simp add: js_sort_sort_key)
qed

lemma rankVenues_mset: "mset (rankVenues venues) = mset venues"
  by (simp add: rankVenues_sort_key)

lemma rankVenues_set: "set (rankVenues venues) = set venues"
  by (simp add: rankVenues_sort_key)

lemma rankVenues_sorted:
  "sorted_wrt (\<lambda>a b. compositeScore a \<ge> compositeScore b) (rankVenues venues)"
proof -
  have "sorted (map (\<lambda>v. - compositeScore v) (rankVenues venues))"
    unfolding rankVenues_sort_key by (rule sorted_sort_key)
  then show ?thesis by (simp add: sorted_map)
qed

lemma rankVenues_stable:
  "filter (\<lambda>v. compositeScore v = k) (rankVenues venues) = filter (\<lambda>v. compositeScore v = k) venues"
proof -
  have "filter (\<lambda>v. - compositeScore v = - k) (sort_key (\<lambda>v. - compositeScore v) venues)
      = filter (\<lambda>v. - compositeScore v = - k) venues"
    by (rule sort_key_stable)
  then show ?thesis by (simp add: rankVenues_sort_key)
qed

text \<open>
  C8. \<^verbatim>\<open>rankVenues\<close> returns a rearrangement of its input that is sorted descending by
  the composite score (0.7 times the rating count plus 0.3 times the rating, a missing
  value counting as 0), and the venues of any one composite score keep their input order.
  A venue with rating 1 and count 100 comes before a venue with rating 5 and count 1,
  whichever order they arrive in.
\<close>

theorem rankVenues_stable_descending:
  "mset (rankVenues venues) = mset venues
   \<and> sorted_wrt (\<lambda>a b. compositeScore a \<ge> compositeScore b) (rankVenues venues)
   \<and> (\<forall>k. filter (\<lambda>v. compositeScore v = k) (rankVenues venues)
          = filter (\<lambda>v. compositeScore v = k) venues)
   \<and> rankVenues [a\<lparr>rating := Some 5, userRatingCount := Some 1\<rparr>,
                  b\<lparr>rating := Some 1, userRatingCount := Some 100\<rparr>]
      = [b\<lparr>rating := Some 1, userRatingCount := Some 100\<rparr>,
         a\<lparr>rating := Some 5, userRatingCount := Some 1\<rparr>]
   \<and> rankVenues [b\<lparr>rating := Some 1, userRatingCount := Some 100\<rparr>,
                  a\<lparr>rating := Some 5, userRatingCount := Some 1\<rparr>]
      = [b\<lparr>rating := Some 1, userRatingCount := Some 100\<rparr>,
         a\<lparr>rating := Some 5, userRatingCount := Some 1\<rparr>]"
proof (intro conjI allI)
  show "mset (rankVenues venues) = mset venues"
    by (rule rankVenues_mset)
  show "sorted_wrt (\<lambda>a b. compositeScore a \<ge> compositeScore b) (rankVenues venues)"
    by (rule rankVenues_sorted)
  show "filter (\<lambda>v. compositeScore v = k) (rankVenues venues)
          = filter (\<lambda>v. compositeScore v = k) venues" for k
    by (rule rankVenues_stable)
  show "rankVenues [a\<lparr>rating := Some 5, userRatingCount := Some 1\<rparr>,
                  b\<lparr>rating := Some 1, userRatingCount := Some 100\<rparr>]
      = [b\<lparr>rating := Some 1, userRatingCount := Some 100\<rparr>,
         a\<lparr>rating := Some 5, userRatingCount := Some 1\<rparr>]"
    by (simp add: rankVenues_def js_sort_def or0_def)
  show "rankVenues [b\<lparr>rating := Some 1, userRatingCount := Some 100\<rparr>,
                  a\<lparr>rating := Some 5, userRatingCount := Some 1\<rparr>]
      = [b\<lparr>rating := Some 1, userRatingCount := Some 100\<rparr>,
         a\<lparr>rating := Some 5, userRatingCount := Some 1\<rparr>]"
    by (simp add: rankVenues_def js_sort_def or0_def)
qed

subsection \<open>Review aggregation\<close>

lemma length_trim: "length (trim s) \<le> length s"
  unfolding trim_def
  by (metis length_dropWhile_le length_rev order_trans)

lemma last_dropWhile: "dropWhile P xs \<noteq> [] \<Longrightarrow> last (dropWhile P xs) = last xs"
  by (induction xs) (auto split: if_splits)

lemma dropWhile_hd_id: "xs \<noteq> [] \<Longrightarrow> \<not> P (hd xs) \<Longrightarrow> dropWhile P xs = xs"
  by (cases xs) auto

lemma trimmed_trim: "trim s \<noteq> [] \<Longrightarrow> trimmed (trim s)"
proof -
  assume ne: "trim s \<noteq> []"
  define u where "u = dropWhile is_js_space s"
  define v where "v = dropWhile is_js_space (rev u)"
  have t: "trim s = rev v" by (simp add: trim_def u_def v_def)
  have vne: "v \<noteq> []" using ne t by simp
  then have une: "u \<noteq> []" unfolding v_def by auto
  have "\<not> is_js_space (hd v)" using vne unfolding v_def by (rule hd_dropWhile)
  then have l: "\<not> is_js_space (last (rev v))" using vne by (simp add: last_rev)
  have "last v = last (rev u)" using vne unfolding v_def by (rule last_dropWhile)
  also have "\<dots> = hd u" using une by (simp add: last_rev)
  finally have "hd (rev v) = hd u" using vne by (simp add: hd_rev)
  moreover have "\<not> is_js_space (hd u)" using une unfolding u_def by (rule hd_dropWhile)
  ultimately show ?thesis using l vne by (simp add: trimmed_def t)
qed

lemma trim_trimmed_sep: "trimmed s \<Longrightarrow> trim (s @ blank_line) = s"
proof -
  assume a: "trimmed s"
  then obtain c cs where s: "s = c # cs" and c: "\<not> is_js_space c" by (cases s) (auto simp: trimmed_def)
  have l: "\<not> is_js_space (last s)" and ne: "s \<noteq> []" using a by (simp_all add: trimmed_def)
  have "dropWhile is_js_space (s @ blank_line) = s @ blank_line" using s c by simp
  moreover have "dropWhile is_js_space (rev (s @ blank_line)) = rev s"
  proof -
    have nl: "is_js_space (CHR 0x0A)" by (simp add: is_js_space_def)
    have "dropWhile is_js_space (rev s) = rev s"
      using ne l by (intro dropWhile_hd_id) (simp_all add: hd_rev)
    then show ?thesis using nl by (simp add: blank_line_def)
  qed
  ultimately show ?thesis by (simp add: trim_def)
qed

lemma reviewTexts_all_snippets:
  "reviewTexts ds = map trim (filter (\<lambda>t. trim t \<noteq> []) (all_snippets ds))"
proof -
  have trim_Nil: "trim [] = []" by (simp add: trim_def)
  have inner: "concat (map (\<lambda>review. case review_text review of None \<Rightarrow> []
                 | Some t \<Rightarrow> if t \<noteq> [] \<and> trim t \<noteq> [] then [trim t] else []) rs)
      = map trim (filter (\<lambda>t. trim t \<noteq> [])
          (concat (map (\<lambda>review. case review_text review of None \<Rightarrow> [] | Some t \<Rightarrow> [t]) rs)))" for rs :: "Review list"
    by (induction rs) (auto simp: trim_Nil split: option.splits)
  have place: "place_review_texts p = map trim (filter (\<lambda>t. trim t \<noteq> [])
        (case reviews p of None \<Rightarrow> []
         | Some rs \<Rightarrow> concat (map (\<lambda>review. case review_text review of None \<Rightarrow> [] | Some t \<Rightarrow> [t]) rs)))" for p
    by (simp add: place_review_texts_def inner split: option.splits)
  show ?thesis
    unfolding reviewTexts_def all_snippets_def
    by (induction ds) (simp_all add: place)
qed

lemma reviewTexts_trimmed: "t \<in> set (reviewTexts ds) \<Longrightarrow> trimmed t"
  by (auto simp: reviewTexts_all_snippets intro: trimmed_trim)

lemma append_within_budget_fit:
  "append_within_budget agg ts = agg @ with_separators (take (fit_count (length agg) ts) ts)"
  by (induction ts arbitrary: agg) (simp_all add: with_separators_def blank_line_def)

lemma fit_count_le: "fit_count used ts \<le> length ts"
  by (induction ts arbitrary: used) simp_all

lemma length_with_separators_fit:
  "used \<le> MAX_CHARS \<Longrightarrow> used + length (with_separators (take (fit_count used ts) ts)) \<le> MAX_CHARS"
proof (induction ts arbitrary: used)
  case Nil
  then show ?case by (simp add: with_separators_def)
next
  case (Cons t ts)
  show ?case
  proof (cases "used + length t + 2 > MAX_CHARS")
    case True
    then show ?thesis using Cons.prems by (simp add: with_separators_def)
  next
    case False
    then have "used + length t + 2 + length (with_separators (take (fit_count (used + length t + 2) ts) ts)) \<le> MAX_CHARS"
      by (intro Cons.IH) simp
    then show ?thesis using False by (simp add: with_separators_def blank_line_def)
  qed
qed

lemma fit_count_stops:
  "fit_count used ts < length ts \<Longrightarrow>
   used + length (with_separators (take (fit_count used ts) ts)) + length (ts ! fit_count used ts) + 2 > MAX_CHARS"
proof (induction ts arbitrary: used)
  case Nil
  then show ?case by simp
next
  case (Cons t ts)
  show ?case
  proof (cases "used + length t + 2 > MAX_CHARS")
    case True
    then show ?thesis by (simp add: with_separators_def)
  next
    case False
    then have "fit_count (used + length t + 2) ts < length ts" using Cons.prems by simp
    from Cons.IH [OF this] show ?thesis using False by (simp add: with_separators_def blank_line_def)
  qed
qed

lemma with_separators_join:
  "ts \<noteq> [] \<Longrightarrow> with_separators ts = join_blank ts @ blank_line"
  by (induction ts rule: join_blank.induct) (simp_all add: with_separators_def)

lemma trimmed_join_blank:
  "ts \<noteq> [] \<Longrightarrow> \<forall>t \<in> set ts. trimmed t \<Longrightarrow> trimmed (join_blank ts)"
proof (induction ts rule: join_blank.induct)
  case (3 t u ts)
  then have "trimmed (join_blank (u # ts))" and t: "trimmed t" by simp_all
  then show ?case
    by (cases t) (auto simp: trimmed_def blank_line_def)
qed simp_all

lemma trim_with_separators:
  assumes "\<forall>t \<in> set ts. trimmed t"
  shows "trim (with_separators ts) = join_blank ts"
proof (cases "ts = []")
  case True
  then show ?thesis by (simp add: with_separators_def trim_def)
next
  case False
  then show ?thesis
    using assms by (simp add: with_separators_join trim_trimmed_sep trimmed_join_blank)
qed

text \<open>
  C4. \<^verbatim>\<open>aggregateReviews\<close> collects the trimmed texts of the reviews whose text is not
  blank, in input order. Its count is their number. Its text is at most \<open>MAX_CHARS\<close>
  long and is the first \<open>k\<close> of them, whole, with a blank line between them, where the
  first \<open>k\<close> fit in the budget (each counted with its separator of two characters) and
  the next one, if there is one, does not: the loop stops there and looks no further. So
  \<open>k\<close> can be less than the count.
\<close>

theorem aggregateReviews_budget:
  "reviewTexts placeDetails = map trim (filter (\<lambda>t. trim t \<noteq> []) (all_snippets placeDetails))
   \<and> snd (aggregateReviews placeDetails) = length (reviewTexts placeDetails)
   \<and> length (fst (aggregateReviews placeDetails)) \<le> MAX_CHARS
   \<and> (\<exists>k \<le> length (reviewTexts placeDetails).
        fst (aggregateReviews placeDetails) = join_blank (take k (reviewTexts placeDetails))
        \<and> length (with_separators (take k (reviewTexts placeDetails))) \<le> MAX_CHARS
        \<and> (k < length (reviewTexts placeDetails) \<longrightarrow>
             length (with_separators (take k (reviewTexts placeDetails)))
               + length (reviewTexts placeDetails ! k) + 2 > MAX_CHARS))"
proof (intro conjI)
  let ?ts = "reviewTexts placeDetails"
  let ?k = "fit_count 0 ?ts"
  show "?ts = map trim (filter (\<lambda>t. trim t \<noteq> []) (all_snippets placeDetails))"
    by (rule reviewTexts_all_snippets)
  show "snd (aggregateReviews placeDetails) = length ?ts"
    by (simp add: aggregateReviews_def)
  have agg: "append_within_budget [] ?ts = with_separators (take ?k ?ts)"
    using append_within_budget_fit [of "[]" ?ts] by simp
  have len: "length (with_separators (take ?k ?ts)) \<le> MAX_CHARS"
    using length_with_separators_fit [of 0 ?ts] by simp
  have "length (fst (aggregateReviews placeDetails)) \<le> length (with_separators (take ?k ?ts))"
    by (simp add: aggregateReviews_def agg length_trim)
  then show "length (fst (aggregateReviews placeDetails)) \<le> MAX_CHARS"
    using len by simp
  have tr: "\<forall>t \<in> set (take ?k ?ts). trimmed t"
    using reviewTexts_trimmed by (metis in_set_takeD)
  have text_eq: "fst (aggregateReviews placeDetails) = join_blank (take ?k ?ts)"
    by (simp add: aggregateReviews_def agg trim_with_separators [OF tr])
  have stop: "?k < length ?ts \<longrightarrow> length (with_separators (take ?k ?ts)) + length (?ts ! ?k) + 2 > MAX_CHARS"
    using fit_count_stops [of 0 ?ts] by simp
  show "\<exists>k \<le> length ?ts.
        fst (aggregateReviews placeDetails) = join_blank (take k ?ts)
        \<and> length (with_separators (take k ?ts)) \<le> MAX_CHARS
        \<and> (k < length ?ts \<longrightarrow> length (with_separators (take k ?ts)) + length (?ts ! k) + 2 > MAX_CHARS)"
    using fit_count_le [of 0 ?ts] text_eq len stop by blast
qed

theorem aggregateReviews_budget_witness:
  "reviewTexts [example_details ''p1'' [Some (replicate 5000 (CHR ''a'')), Some ''  '', None],
                example_details ''p2'' [Some (replicate 4000 (CHR ''b'')), Some '' c '']]
     = [replicate 5000 (CHR ''a''), replicate 4000 (CHR ''b''), ''c'']
   \<and> aggregateReviews [example_details ''p1'' [Some (replicate 5000 (CHR ''a'')), Some ''  '', None],
                example_details ''p2'' [Some (replicate 4000 (CHR ''b'')), Some '' c '']]
     = (replicate 5000 (CHR ''a''), 3)"
proof -
  let ?ds = "[example_details ''p1'' [Some (replicate 5000 (CHR ''a'')), Some ''  '', None],
              example_details ''p2'' [Some (replicate 4000 (CHR ''b'')), Some '' c '']]"
  have sp: "is_js_space (CHR '' '')" "\<not> is_js_space (CHR ''a'')" "\<not> is_js_space (CHR ''b'')"
    "\<not> is_js_space (CHR ''c'')"
    by (simp_all add: is_js_space_def)
  have ts: "reviewTexts ?ds = [replicate 5000 (CHR ''a''), replicate 4000 (CHR ''b''), ''c'']"
    using sp by (simp add: reviewTexts_def place_review_texts_def example_details_def example_review_def trim_def)
  note th = aggregateReviews_budget [of ?ds]
  have c: "snd (aggregateReviews ?ds) = 3"
    using conjunct1 [OF conjunct2 [OF th]] by (simp add: ts)
  have "\<exists>k \<le> length (reviewTexts ?ds).
        fst (aggregateReviews ?ds) = join_blank (take k (reviewTexts ?ds))
        \<and> length (with_separators (take k (reviewTexts ?ds))) \<le> MAX_CHARS
        \<and> (k < length (reviewTexts ?ds) \<longrightarrow>
             length (with_separators (take k (reviewTexts ?ds)))
               + length (reviewTexts ?ds ! k) + 2 > MAX_CHARS)"
    using conjunct2 [OF conjunct2 [OF conjunct2 [OF th]]] .
  then obtain k where k: "k \<le> length (reviewTexts ?ds)"
      "fst (aggregateReviews ?ds) = join_blank (take k (reviewTexts ?ds))"
      "length (with_separators (take k (reviewTexts ?ds))) \<le> MAX_CHARS"
      "k < length (reviewTexts ?ds) \<longrightarrow>
         length (with_separators (take k (reviewTexts ?ds))) + length (reviewTexts ?ds ! k) + 2 > MAX_CHARS"
    by blast
  have "k = 0 \<or> k = 1 \<or> k = 2 \<or> k = 3" using k(1) unfolding ts by simp arith
  then have "k = 1"
    using k(3,4) unfolding ts by (auto simp: with_separators_def blank_line_def MAX_CHARS_def)
  then have "fst (aggregateReviews ?ds) = replicate 5000 (CHR ''a'')"
    using k(2) unfolding ts by simp
  then show ?thesis using c ts by (simp add: prod_eq_iff)
qed

subsection \<open>Score parsing\<close>

lemma get_set_dim:
  "dm \<in> set VIBE_DIMENSIONS \<Longrightarrow> get_dim d (set_dim dm v sc) = (if d = dm then v else get_dim d sc)"
  by (auto simp: VIBE_DIMENSIONS_def get_dim_def set_dim_def)

lemma step_accepted:
  "(case json_get parsed dm of
      Some (JNumber v) \<Rightarrow> if v \<ge> 0 \<and> v \<le> 1 then set_dim dm (Some (round2 v)) sc else sc
    | _ \<Rightarrow> sc)
   = (case accepted parsed dm of None \<Rightarrow> sc | Some x \<Rightarrow> set_dim dm (Some x) sc)"
  by (simp add: accepted_def split: option.splits json.splits)

lemma get_dim_foldl:
  "set dms \<subseteq> set VIBE_DIMENSIONS \<Longrightarrow>
   get_dim d (foldl (\<lambda>sc dm. case accepted parsed dm of None \<Rightarrow> sc | Some x \<Rightarrow> set_dim dm (Some x) sc) sc0 dms)
   = (if d \<in> set dms \<and> accepted parsed d \<noteq> None then accepted parsed d else get_dim d sc0)"
proof (induction dms arbitrary: sc0)
  case Nil
  then show ?case by simp
next
  case (Cons dm dms)
  then have dm: "dm \<in> set VIBE_DIMENSIONS" and sub: "set dms \<subseteq> set VIBE_DIMENSIONS" by simp_all
  show ?case
    by (cases "accepted parsed dm") (auto simp: Cons.IH [OF sub] get_set_dim [OF dm])
qed

lemma get_dim_parse:
  assumes "d \<in> set VIBE_DIMENSIONS"
  shows "get_dim d (parseVibeScores_with parse raw)
     = (case jsonMatch raw of
          None \<Rightarrow> None
        | Some m \<Rightarrow> (case parse m of None \<Rightarrow> None | Some parsed \<Rightarrow> accepted parsed d))"
proof -
  have e: "get_dim d \<lparr>lively = None, social = None, upscale = None, casual = None,
                      trendy = None, local = None, photogenic = None\<rparr> = None"
    by (simp add: get_dim_def)
  show ?thesis
    unfolding parseVibeScores_with_def Let_def step_accepted
    using assms by (auto simp: e get_dim_foldl split: option.splits)
qed





lemma fields_get_dim:
  "sc = \<lparr>lively = get_dim ''lively'' sc, social = get_dim ''social'' sc,
         upscale = get_dim ''upscale'' sc, casual = get_dim ''casual'' sc,
         trendy = get_dim ''trendy'' sc, local = get_dim ''local'' sc,
         photogenic = get_dim ''photogenic'' sc\<rparr>"
  by (simp add: get_dim_def)

lemma parseVibeScores_scores_of_object:
  "parseVibeScores raw =
     (case jsonMatch raw of None \<Rightarrow> emptyVibeScores | Some m \<Rightarrow> scores_of_object m)"
proof -
  have dims: "''lively'' \<in> set VIBE_DIMENSIONS" "''social'' \<in> set VIBE_DIMENSIONS"
    "''upscale'' \<in> set VIBE_DIMENSIONS" "''casual'' \<in> set VIBE_DIMENSIONS"
    "''trendy'' \<in> set VIBE_DIMENSIONS" "''local'' \<in> set VIBE_DIMENSIONS"
    "''photogenic'' \<in> set VIBE_DIMENSIONS"
    by (simp_all add: VIBE_DIMENSIONS_def)
  show ?thesis
    apply (subst fields_get_dim [of "parseVibeScores raw"])
    unfolding parseVibeScores_def
    apply (simp only: get_dim_parse [OF dims(1)] get_dim_parse [OF dims(2)] get_dim_parse [OF dims(3)]
          get_dim_parse [OF dims(4)] get_dim_parse [OF dims(5)] get_dim_parse [OF dims(6)]
          get_dim_parse [OF dims(7)])
    apply (simp add: scores_of_object_def emptyVibeScores_def split: option.splits)
    done
qed

lemma jsonMatch_span:
  assumes "CHR ''{'' \<notin> set pre" and "CHR ''}'' \<notin> set post"
  shows "jsonMatch (pre @ [CHR ''{''] @ mid @ [CHR ''}''] @ post) = Some ([CHR ''{''] @ mid @ [CHR ''}''])"
proof -
  have 1: "dropWhile (\<lambda>c. c \<noteq> CHR ''{'') (pre @ [CHR ''{''] @ mid @ [CHR ''}''] @ post)
      = CHR ''{'' # mid @ [CHR ''}''] @ post"
    using assms(1) by (auto simp: dropWhile_append)
  have 2: "dropWhile (\<lambda>c. c \<noteq> CHR ''}'') (rev post @ CHR ''}'' # rev mid) = CHR ''}'' # rev mid"
    using assms(2) by (auto simp: dropWhile_append)
  show ?thesis
    unfolding jsonMatch_def 1 Let_def by (simp add: 2)
qed

lemma jsonMatch_None_iff:
  "jsonMatch raw = None \<longleftrightarrow> \<not> (\<exists>pre mid post. raw = pre @ [CHR ''{''] @ mid @ [CHR ''}''] @ post)"
proof
  assume n: "jsonMatch raw = None"
  show "\<not> (\<exists>pre mid post. raw = pre @ [CHR ''{''] @ mid @ [CHR ''}''] @ post)"
  proof
    assume "\<exists>pre mid post. raw = pre @ [CHR ''{''] @ mid @ [CHR ''}''] @ post"
    then obtain pre mid post where t: "raw = pre @ [CHR ''{''] @ mid @ [CHR ''}''] @ post" by blast
    define p0 where "p0 = takeWhile (\<lambda>c. c \<noteq> CHR ''{'') raw"
    define r where "r = dropWhile (\<lambda>c. c \<noteq> CHR ''{'') raw"
    have split: "raw = p0 @ r" by (simp add: p0_def r_def)
    have "CHR ''{'' \<in> set raw" using t by simp
    then have rne: "r \<noteq> []" unfolding r_def by (simp add: dropWhile_eq_Nil_conv) 
    have p0: "CHR ''{'' \<notin> set p0" unfolding p0_def by (auto dest: set_takeWhileD)
    have le: "length p0 \<le> length pre"
    proof (rule ccontr)
      assume "\<not> length p0 \<le> length pre"
      then have lt: "length pre < length p0" by simp
      then have "p0 ! length pre = raw ! length pre" by (simp add: split nth_append)
      also have "\<dots> = CHR ''{''" by (simp add: t nth_append)
      finally show False using p0 lt by (metis nth_mem)
    qed
    have "tl r = drop (Suc (length p0)) raw" using rne by (simp add: split drop_Suc tl_drop)
    moreover have "mid @ [CHR ''}''] @ post = drop (Suc (length pre)) raw" by (simp add: t)
    moreover have "set (drop (Suc (length pre)) raw) \<subseteq> set (drop (Suc (length p0)) raw)"
      using le by (intro set_drop_subset_set_drop) simp
    ultimately have "CHR ''}'' \<in> set (tl r)" by (metis in_set_conv_decomp subsetD append_Cons append_Nil)
    then have "dropWhile (\<lambda>c. c \<noteq> CHR ''}'') (rev (tl r)) \<noteq> []"
      by (simp add: dropWhile_eq_Nil_conv)
    then show False using n rne unfolding jsonMatch_def r_def [symmetric] Let_def by (auto split: if_splits)
  qed
next
  assume a: "\<not> (\<exists>pre mid post. raw = pre @ [CHR ''{''] @ mid @ [CHR ''}''] @ post)"
  show "jsonMatch raw = None"
  proof (rule ccontr)
    assume "jsonMatch raw \<noteq> None"
    define p0 where "p0 = takeWhile (\<lambda>c. c \<noteq> CHR ''{'') raw"
    define r where "r = dropWhile (\<lambda>c. c \<noteq> CHR ''{'') raw"
    define u where "u = dropWhile (\<lambda>c. c \<noteq> CHR ''}'') (rev (tl r))"
    have split: "raw = p0 @ r" by (simp add: p0_def r_def)
    have rne: "r \<noteq> []" and une: "u \<noteq> []"
      using \<open>jsonMatch raw \<noteq> None\<close> unfolding jsonMatch_def r_def [symmetric] u_def Let_def
      by (auto split: if_splits)
    have hr: "hd r = CHR ''{''" using rne hd_dropWhile [of "\<lambda>c. c \<noteq> CHR ''{''" raw] by (simp add: r_def)
    have hu: "hd u = CHR ''}''" using une hd_dropWhile [of "\<lambda>c. c \<noteq> CHR ''}''" "rev (tl r)"] by (simp add: u_def)
    have "rev (tl r) = takeWhile (\<lambda>c. c \<noteq> CHR ''}'') (rev (tl r)) @ u" by (simp add: u_def)
    then have "tl r = rev u @ rev (takeWhile (\<lambda>c. c \<noteq> CHR ''}'') (rev (tl r)))"
      by (metis rev_append rev_rev_ident)
    moreover have "rev u = rev (tl u) @ [CHR ''}'']" using une hu by (cases u) auto
    moreover have "r = CHR ''{'' # tl r" using rne hr by (cases r) auto
    ultimately have "raw = p0 @ [CHR ''{''] @ rev (tl u) @ [CHR ''}''] @ rev (takeWhile (\<lambda>c. c \<noteq> CHR ''}'') (rev (tl r)))"
      using split by (metis append_Cons append_Nil append_assoc)
    then show False using a by blast
  qed
qed



text \<open>
  C5, as stated, fails. On a response that holds a valid object followed by a second one,
  the first balanced object is the first one, and parsing it gives \<open>lively = 0.5\<close>; the
  source matches from the first \<^verbatim>\<open>{\<close> to the last \<^verbatim>\<open>}\<close>, which is no JSON text, and
  returns the all-null set.
\<close>

theorem parseVibeScores_first_balanced_counterexample:
  \<open>first_balanced_object ''{"lively":0.5} and {"social":0.3}'' = Some ''{"lively":0.5}''
   \<and> parseVibeScores_spec ''{"lively":0.5} and {"social":0.3}'' = emptyVibeScores\<lparr>lively := Some 0.5\<rparr>
   \<and> jsonMatch ''{"lively":0.5} and {"social":0.3}'' = Some ''{"lively":0.5} and {"social":0.3}''
   \<and> JSON_parse ''{"lively":0.5} and {"social":0.3}'' = None
   \<and> parseVibeScores ''{"lively":0.5} and {"social":0.3}'' = emptyVibeScores
   \<and> parseVibeScores ''{"lively":0.5} and {"social":0.3}''
       \<noteq> parseVibeScores_spec ''{"lively":0.5} and {"social":0.3}''\<close>
proof -
  let ?raw = \<open>''{"lively":0.5} and {"social":0.3}''\<close>
  have 1: \<open>first_balanced_object ?raw = Some ''{"lively":0.5}''\<close> by code_simp
  have 2: "parseVibeScores_spec ?raw = emptyVibeScores\<lparr>lively := Some 0.5\<rparr>" by code_simp
  have 3: "jsonMatch ?raw = Some ?raw" by code_simp
  have 4: "JSON_parse ?raw = None" by code_simp
  have 5: "parseVibeScores ?raw = emptyVibeScores" by code_simp
  have 6: "parseVibeScores ?raw \<noteq> parseVibeScores_spec ?raw"
    unfolding 2 5 by (simp add: emptyVibeScores_def)
  show ?thesis using 1 2 3 4 5 6 by blast
qed

text \<open>
  C5, amended. Score parsing takes the part of the response from its first \<^verbatim>\<open>{\<close> to its
  last \<^verbatim>\<open>}\<close> and parses the dimensions from that part; the result is the all-null set
  when that part is not a JSON text, and when there is no such part, that is, when no
  \<^verbatim>\<open>{\<close> of the response has a \<^verbatim>\<open>}\<close> after it.
\<close>

theorem parseVibeScores_greedy_span:
  "parseVibeScores raw =
     (case jsonMatch raw of None \<Rightarrow> emptyVibeScores | Some m \<Rightarrow> scores_of_object m)
   \<and> (jsonMatch raw = None \<longleftrightarrow>
        \<not> (\<exists>pre mid post. raw = pre @ [CHR ''{''] @ mid @ [CHR ''}''] @ post))
   \<and> (CHR ''{'' \<notin> set pre \<and> CHR ''}'' \<notin> set post \<longrightarrow>
        jsonMatch (pre @ [CHR ''{''] @ mid @ [CHR ''}''] @ post) = Some ([CHR ''{''] @ mid @ [CHR ''}'']))"
  using parseVibeScores_scores_of_object jsonMatch_None_iff jsonMatch_span by blast

theorem parseVibeScores_greedy_span_witness:
  \<open>CHR ''{'' \<notin> set ''Some prose '' \<and> CHR ''}'' \<notin> set ''...''
   \<and> jsonMatch (''Some prose '' @ [CHR ''{''] @ ''"lively":0.5,"social":2'' @ [CHR ''}''] @ ''...'')
       = Some ([CHR ''{''] @ ''"lively":0.5,"social":2'' @ [CHR ''}''])
   \<and> parseVibeScores (''Some prose '' @ [CHR ''{''] @ ''"lively":0.5,"social":2'' @ [CHR ''}''] @ ''...'')
       = scores_of_object ([CHR ''{''] @ ''"lively":0.5,"social":2'' @ [CHR ''}''])\<close>
proof -
  let ?pre = "''Some prose ''" and ?mid = \<open>''"lively":0.5,"social":2''\<close> and ?post = "''...''"
  have h: "CHR ''{'' \<notin> set ?pre \<and> CHR ''}'' \<notin> set ?post" by simp
  have m: "jsonMatch (?pre @ [CHR ''{''] @ ?mid @ [CHR ''}''] @ ?post) = Some ([CHR ''{''] @ ?mid @ [CHR ''}''])"
    using parseVibeScores_greedy_span [of "?pre @ [CHR ''{''] @ ?mid @ [CHR ''}''] @ ?post" ?pre ?post ?mid] h
    by blast
  have "parseVibeScores (?pre @ [CHR ''{''] @ ?mid @ [CHR ''}''] @ ?post)
      = (case jsonMatch (?pre @ [CHR ''{''] @ ?mid @ [CHR ''}''] @ ?post) of
           None \<Rightarrow> emptyVibeScores | Some m \<Rightarrow> scores_of_object m)"
    using parseVibeScores_greedy_span [of "?pre @ [CHR ''{''] @ ?mid @ [CHR ''}''] @ ?post" ?pre ?post ?mid]
    by blast
  then have "parseVibeScores (?pre @ [CHR ''{''] @ ?mid @ [CHR ''}''] @ ?post)
      = scores_of_object ([CHR ''{''] @ ?mid @ [CHR ''}''])"
    unfolding m by simp
  then show ?thesis using h m by blast
qed

subsection \<open>Loading the cells\<close>






subsection \<open>The per-cell pipeline\<close>

lemma withRetry_Inr:
  "fn s = (Inr v, s') \<Longrightarrow> withRetry fn sleep options s = (Inr v, s')"
  by (simp add: withRetry_def withRetry_loop_Inr)

lemma sim_nearbySearch_ok:
  assumes "sim_search svc lat placeType = Inr (ok_response body)"
  shows "nearbySearch (sim_env svc) lat lng placeType w = (Inr (case body of None \<Rightarrow> [] | Some ps \<Rightarrow> ps), w)"
proof -
  have "fetchWithError (fetch_searchNearby (sim_env svc) lat lng placeType) w = (Inr (ok_response body), w)"
    by (simp add: fetchWithError_def sim_env_def assms ok_response_def)
  then have "withRetry (fetchWithError (fetch_searchNearby (sim_env svc) lat lng placeType))
      (env_sleep (sim_env svc)) client_retry_options w = (Inr (ok_response body), w)"
    by (rule withRetry_Inr)
  moreover have "acquire_googlePlaces (sim_env svc) w = w" by (simp add: sim_env_def)
  ultimately show ?thesis
    by (simp add: nearbySearch_def ok_response_def)
qed

lemma sim_searchAllTypes_quiet:
  "searchAllTypes (sim_env quiet_services) lat lng PLACE_TYPES w = (Inr [], w)"
proof -
  have "nearbySearch (sim_env quiet_services) lat lng placeType w' = (Inr [], w')" for placeType w'
    using sim_nearbySearch_ok [of quiet_services lat placeType None lng w']
    by (simp add: quiet_services_def)
  then show ?thesis
    by (simp add: searchAllTypes_def PLACE_TYPES_def)
qed

lemma processCell_centroid_fails:
  assumes "parsePointWKT env (centroid cell) = None"
  shows "processCell env cell options st =
     (Inl \<lparr>is_Error = True, message = ''Failed to parse centroid for cell '' @ cell_id cell,
           status = None\<rparr>, st)"
  by (simp add: processCell_def assms)


lemma rankVenues_Nil: "rankVenues [] = []"
  by (simp add: rankVenues_def js_sort_def)

lemma processCell_no_qualified:
  assumes "parsePointWKT env (centroid cell) = Some coords"
    and "searchAllTypes env (latitude coords) (longitude coords) PLACE_TYPES (world st) = (Inr allPlaces, w1)"
    and "filterQualifiedVenues allPlaces MIN_REVIEW_COUNT = []"
  shows "processCell env cell options st =
     (case upsertCellVibes env
             \<lparr>vibe_grid_cell_id = cell_id cell, vibe_scores = emptyVibeScores,
              source_review_count = 0, model_name = None,
              computed_at = toISOString env w1\<rparr>
             (dryRun options) w1 of
        (r, w3) \<Rightarrow> (r, st\<lparr>world := w3\<rparr>))"
  by (simp add: processCell_def assms rankVenues_Nil upsertVenues_def)

lemma processCell_quiet_dry:
  assumes "dryRun options"
  shows "processCell (sim_env quiet_services) (example_cell cid) options st = (Inr (), st)"
proof -
  have p: "parsePointWKT (sim_env quiet_services) (centroid (example_cell cid))
      = Some \<lparr>latitude = 0, longitude = 0\<rparr>"
    by (simp add: sim_env_def quiet_services_def example_cell_def)
  have s: "searchAllTypes (sim_env quiet_services) (latitude \<lparr>latitude = 0, longitude = 0\<rparr>)
      (longitude \<lparr>latitude = 0, longitude = 0\<rparr>) PLACE_TYPES (world st) = (Inr [], world st)"
    by (rule sim_searchAllTypes_quiet)
  have f: "filterQualifiedVenues [] MIN_REVIEW_COUNT = []" by (simp add: filterQualifiedVenues_def)
  show ?thesis
    unfolding processCell_no_qualified [OF p s f]
    by (simp add: upsertCellVibes_def assms)
qed

lemma main_step_result:
  assumes "processCell env cell options (client r) = (res, st1)"
  shows "main_step env options n cell r =
     \<lparr>client = (if processed r + 1 < n
                 then st1\<lparr>world := env_sleep env betweenCells_delayMs (world st1)\<rparr> else st1),
      failedCells = failedCells r @ ledger_of [(cell, res, toISOString env (world st1))],
      processed = processed r + 1\<rparr>"
  by (cases res) (simp_all add: main_step_def assms)



























subsection \<open>The orchestrator loop\<close>

lemma main_step_processed: "processed (main_step env options n cell r) = processed r + 1"
  by (simp add: main_step_def Let_def split: prod.splits)

lemma main_step_failed:
  "failedCells (main_step env options n cell r) =
     failedCells r @ ledger_of [(cell, fst (processCell env cell options (client r)),
        toISOString env (world (snd (processCell env cell options (client r)))))]"
  by (cases "processCell env cell options (client r)")
     (auto simp: main_step_def Let_def split: sum.splits)

lemma ledger_of_append: "ledger_of (xs @ ys) = ledger_of xs @ ledger_of ys"
  by (induction xs rule: ledger_of.induct) simp_all

lemma ledger_of_Cons: "ledger_of (x # xs) = ledger_of [x] @ ledger_of xs"
  using ledger_of_append [of "[x]" xs] by simp

lemma outcomes_cells: "map fst (outcomes env options n cells r) = cells"
  by (induction cells arbitrary: r) simp_all

lemma main_loop_processed:
  "processed (main_loop env options n cells r) = processed r + length cells"
  by (induction cells arbitrary: r) (simp_all add: main_step_processed)

lemma main_loop_failed:
  "failedCells (main_loop env options n cells r) = failedCells r @ ledger_of (outcomes env options n cells r)"
proof (induction cells arbitrary: r)
  case Nil
  then show ?case by simp
next
  case (Cons cell cells)
  show ?case
    by (simp add: Cons.IH main_step_failed ledger_of_Cons [of _ "outcomes env options n cells (main_step env options n cell r)"])
qed

lemma main_loop_append:
  "main_loop env options n (pre @ post) r = main_loop env options n post (main_loop env options n pre r)"
  by (induction pre arbitrary: r) simp_all

lemma length_ledger_succeeded:
  "length (ledger_of os) + succeeded_of os = length os"
  by (induction os rule: ledger_of.induct) (simp_all add: succeeded_of_def)

text \<open>
  C1. The loop of \<^verbatim>\<open>main\<close> processes every cell of the list, once and in order, whatever
  the cells before it did. When \<^verbatim>\<open>processCell\<close> throws for a cell, the loop appends one
  record to the ledger, with the identifier of the cell, the message of the error and the
  time of the catch, and goes on with the cells after it; the ledger of the run is exactly
  these records, in order. The run ends with processed equal to the number of cells, and
  succeeded equal to processed minus the length of the ledger, which is the number of cells
  that did not throw.
\<close>

theorem main_loop_isolates_failures:
  "map fst (outcomes env options n cells r) = cells
   \<and> failedCells (main_loop env options n cells r)
       = failedCells r @ ledger_of (outcomes env options n cells r)
   \<and> processed (main_loop env options n cells r) = processed r + length cells
   \<and> (\<forall>pre cell post. cells = pre @ cell # post \<longrightarrow>
        main_loop env options n cells r
          = main_loop env options n post (main_step env options n cell (main_loop env options n pre r))
        \<and> (\<forall>e. fst (processCell env cell options (client (main_loop env options n pre r))) = Inl e \<longrightarrow>
              failedCells (main_step env options n cell (main_loop env options n pre r))
                = failedCells (main_loop env options n pre r) @
                  [\<lparr>cellId = cell_id cell, error = message e,
                    timestamp = toISOString env (world (snd (processCell env cell options
                                  (client (main_loop env options n pre r)))))\<rparr>]))
   \<and> summarize (run_cells env options cells w)
       = \<lparr>summary_processed = length cells,
          summary_succeeded = int (length cells) - int (length (failedCells (run_cells env options cells w))),
          summary_failed = length (failedCells (run_cells env options cells w))\<rparr>
   \<and> summary_succeeded (summarize (run_cells env options cells w))
       = int (succeeded_of (outcomes env options (length cells) cells
            \<lparr>client = \<lparr>world = w, detailsCache = []\<rparr>, failedCells = [], processed = 0\<rparr>))"
proof (intro conjI allI impI)
  show "map fst (outcomes env options n cells r) = cells"
    by (rule outcomes_cells)
  show "failedCells (main_loop env options n cells r)
       = failedCells r @ ledger_of (outcomes env options n cells r)"
    by (rule main_loop_failed)
  show "processed (main_loop env options n cells r) = processed r + length cells"
    by (rule main_loop_processed)
  show "summarize (run_cells env options cells w)
       = \<lparr>summary_processed = length cells,
          summary_succeeded = int (length cells) - int (length (failedCells (run_cells env options cells w))),
          summary_failed = length (failedCells (run_cells env options cells w))\<rparr>"
    by (simp add: summarize_def run_cells_def main_loop_processed)
  let ?r0 = "\<lparr>client = \<lparr>world = w, detailsCache = []\<rparr>, failedCells = [], processed = 0\<rparr>"
  have "length (failedCells (run_cells env options cells w)) + succeeded_of (outcomes env options (length cells) cells ?r0)
      = length cells"
    using length_ledger_succeeded [of "outcomes env options (length cells) cells ?r0"]
      arg_cong [OF outcomes_cells [of env options "length cells" cells ?r0], of length]
    by (simp add: run_cells_def main_loop_failed)
  then show "summary_succeeded (summarize (run_cells env options cells w))
       = int (succeeded_of (outcomes env options (length cells) cells ?r0))"
    by (simp add: summarize_def run_cells_def main_loop_processed)
next
  fix pre cell post
  assume "cells = pre @ cell # post"
  then show "main_loop env options n cells r
          = main_loop env options n post (main_step env options n cell (main_loop env options n pre r))"
    by (simp add: main_loop_append)
next
  fix pre cell post e
  assume "fst (processCell env cell options (client (main_loop env options n pre r))) = Inl e"
  then show "failedCells (main_step env options n cell (main_loop env options n pre r))
                = failedCells (main_loop env options n pre r) @
                  [\<lparr>cellId = cell_id cell, error = message e,
                    timestamp = toISOString env (world (snd (processCell env cell options
                                  (client (main_loop env options n pre r)))))\<rparr>]"
    by (simp add: main_step_failed)
qed

theorem main_loop_isolates_failures_witness:
  "failedCells (run_cells (sim_env quiet_services)
       \<lparr>citySlug = ''san-francisco'', force = False, dryRun = True, limit = None\<rparr>
       [example_cell ''c1'', (example_cell ''c2'')\<lparr>centroid := ''bad''\<rparr>, example_cell ''c3''] sim_start)
     = [\<lparr>cellId = ''c2'', error = ''Failed to parse centroid for cell c2'', timestamp = ''t+500''\<rparr>]
   \<and> summarize (run_cells (sim_env quiet_services)
       \<lparr>citySlug = ''san-francisco'', force = False, dryRun = True, limit = None\<rparr>
       [example_cell ''c1'', (example_cell ''c2'')\<lparr>centroid := ''bad''\<rparr>, example_cell ''c3''] sim_start)
     = \<lparr>summary_processed = 3, summary_succeeded = 2, summary_failed = 1\<rparr>"
proof -
  let ?env = "sim_env quiet_services"
  let ?opts = "\<lparr>citySlug = ''san-francisco'', force = False, dryRun = True, limit = None\<rparr>"
  let ?bad = "(example_cell ''c2'')\<lparr>centroid := ''bad''\<rparr>"
  let ?cells = "[example_cell ''c1'', ?bad, example_cell ''c3'']"
  let ?r0 = "\<lparr>client = \<lparr>world = sim_start, detailsCache = []\<rparr>, failedCells = [], processed = 0\<rparr>"
  have good: "processCell ?env (example_cell cid) ?opts st = (Inr (), st)" for cid st
    by (rule processCell_quiet_dry) simp
  have bad: "processCell ?env ?bad ?opts st =
     (Inl \<lparr>is_Error = True, message = ''Failed to parse centroid for cell c2'', status = None\<rparr>, st)" for st
    using processCell_centroid_fails [of ?env ?bad ?opts st]
    by (simp add: sim_env_def quiet_services_def example_cell_def)
  have d: "decimal 500 = ''500''" by code_simp
  define st1 where "st1 = \<lparr>world = sim_start\<lparr>clock := 500\<rparr>, detailsCache = []\<rparr>"
  define r1 where "r1 = \<lparr>client = st1, failedCells = [], processed = 1\<rparr>"
  have s1: "main_step ?env ?opts 3 (example_cell ''c1'') ?r0 = r1"
    unfolding main_step_result [OF good]
    by (simp add: r1_def st1_def sim_env_def betweenCells_delayMs_def sim_start_def)
  have o1: "outcomes ?env ?opts 3 ?cells ?r0
      = (example_cell ''c1'', Inr (), toISOString ?env sim_start) # outcomes ?env ?opts 3 [?bad, example_cell ''c3''] r1"
    by (simp add: good s1)
  have t: "toISOString ?env (world st1) = ''t+500''"
    by (simp add: sim_env_def st1_def d)
  have o2: "outcomes ?env ?opts 3 [?bad, example_cell ''c3''] r1
      = (?bad, Inl \<lparr>is_Error = True, message = ''Failed to parse centroid for cell c2'', status = None\<rparr>, ''t+500'')
        # outcomes ?env ?opts 3 [example_cell ''c3''] (main_step ?env ?opts 3 ?bad r1)"
    by (simp add: bad r1_def t)
  have o3: "outcomes ?env ?opts 3 [example_cell ''c3''] r2
      = [(example_cell ''c3'', Inr (), toISOString ?env (world (client r2)))]" for r2
    by (simp add: good)
  have o: "ledger_of (outcomes ?env ?opts 3 ?cells ?r0)
      = [\<lparr>cellId = ''c2'', error = ''Failed to parse centroid for cell c2'', timestamp = ''t+500''\<rparr>]"
    unfolding o1 o2 o3 by (simp add: example_cell_def)
  note th = main_loop_isolates_failures [of ?env ?opts 3 ?cells ?r0 sim_start]
  have len: "length ?cells = 3" by simp
  have rc: "run_cells ?env ?opts ?cells sim_start = main_loop ?env ?opts 3 ?cells ?r0"
    unfolding run_cells_def len by (rule refl)
  have "failedCells (main_loop ?env ?opts 3 ?cells ?r0)
      = failedCells ?r0 @ ledger_of (outcomes ?env ?opts 3 ?cells ?r0)"
    using conjunct1 [OF conjunct2 [OF th]] .
  then have f: "failedCells (run_cells ?env ?opts ?cells sim_start)
      = [\<lparr>cellId = ''c2'', error = ''Failed to parse centroid for cell c2'', timestamp = ''t+500''\<rparr>]"
    unfolding rc o by simp
  have "summarize (run_cells ?env ?opts ?cells sim_start)
       = \<lparr>summary_processed = length ?cells,
          summary_succeeded = int (length ?cells) - int (length (failedCells (run_cells ?env ?opts ?cells sim_start))),
          summary_failed = length (failedCells (run_cells ?env ?opts ?cells sim_start))\<rparr>"
    using th by blast
  then have s: "summarize (run_cells ?env ?opts ?cells sim_start)
       = \<lparr>summary_processed = 3, summary_succeeded = 2, summary_failed = 1\<rparr>"
    unfolding f by simp
  show ?thesis using f s by blast
qed

subsection \<open>Persistence errors\<close>




end
